theory Spec2Isabelle
  imports
    Main
    "HOL-Library.AList"
    "HOL-Library.Char_ord"
    "HOL-Library.List_Lexorder"
begin

section \<open>Rule test runner: the compliance checks of \<^verbatim>\<open>scripts/rule_test_runner.py\<close>\<close>

text \<open>
  The program scans a project directory with a fixed sequence of checks, collects one
  result per rule in a dictionary, renders a report and exits with a status computed
  from the MUST violations.

  Modelling decisions.
  \<^item> The content of a file is a sequence of Unicode code points, since the source
    classifies and folds its characters. The texts the source only copies and
    concatenates (its literals, path names, the report) are \<^typ>\<open>string\<close>s; the non-ASCII
    characters of the source's literals are written as the bytes the source file holds.
  \<^item> A \<^verbatim>\<open>Path\<close> below the project root is the list of its parts relative to the
    root; the root itself is the empty list.
  \<^item> The file system is an input: a record of the operations the checks call
    (\<^verbatim>\<open>exists\<close>, \<^verbatim>\<open>is_dir\<close>, \<^verbatim>\<open>rglob\<close>, \<^verbatim>\<open>glob\<close>, \<^verbatim>\<open>read_text\<close>,
    \<^verbatim>\<open>str\<close>). The lists returned by \<^verbatim>\<open>rglob\<close> and \<^verbatim>\<open>glob\<close> are in the order
    the directory enumeration yields them. The file system does not change during a run.
  \<^item> \<^verbatim>\<open>read_text\<close> is the only operation that may raise; a raise is the value
    \<open>None\<close>. An exception that no handler catches is the left summand of the result.
\<close>

subsection \<open>Strings\<close>

fun startswith :: "'a list \<Rightarrow> 'a list \<Rightarrow> bool" where
  "startswith s [] = True"
| "startswith [] (p # ps) = False"
| "startswith (c # cs) (p # ps) = (c = p \<and> startswith cs ps)"

text \<open>\<^verbatim>\<open>needle in s\<close> on strings.\<close>

fun contains :: "'a list \<Rightarrow> 'a list \<Rightarrow> bool" where
  "contains needle [] = (needle = [])"
| "contains needle (c # cs) = (startswith (c # cs) needle \<or> contains needle cs)"

text \<open>\<^verbatim>\<open>s.split(sep)\<close> for a separator of one character: never an empty list.\<close>

fun split :: "'a \<Rightarrow> 'a list \<Rightarrow> 'a list list" where
  "split sep [] = [[]]"
| "split sep (c # cs) =
     (if c = sep then [] # split sep cs
      else (case split sep cs of
              [] \<Rightarrow> [[c]]
            | w # ws \<Rightarrow> (c # w) # ws))"

text \<open>\<^verbatim>\<open>sep.join(xs)\<close>.\<close>

fun join :: "string \<Rightarrow> string list \<Rightarrow> string" where
  "join sep [] = []"
| "join sep [x] = x"
| "join sep (x # y # ys) = x @ sep @ join sep (y # ys)"

text \<open>\<^verbatim>\<open>str(n)\<close> of a count, as the f-strings print it.\<close>

definition digit_char :: "nat \<Rightarrow> char" where
  "digit_char d = ''0123456789'' ! d"

fun str_nat :: "nat \<Rightarrow> string" where
  "str_nat n = (if n < 10 then [digit_char n] else str_nat (n div 10) @ [digit_char (n mod 10)])"

declare str_nat.simps [simp del]

subsection \<open>Text read from files\<close>

text \<open>
  The content of a file is a Python \<^verbatim>\<open>str\<close>: a sequence of Unicode code points. The
  source applies to it \<^verbatim>\<open>str.lower\<close> and the classes \<^verbatim>\<open>\s\<close> and \<^verbatim>\<open>\d\<close> and the
  flag \<^verbatim>\<open>re.IGNORECASE\<close> of the \<^verbatim>\<open>re\<close> module, which all follow the Unicode
  character database. The tables below are those of Unicode 14.0.0, the database of
  CPython 3.11.
\<close>

type_synonym codepoint = int

type_synonym ustring = "codepoint list"

text \<open>A literal of the source as a sequence of code points.\<close>

definition ustr :: "string \<Rightarrow> ustring" where
  "ustr s = map of_char s"

text \<open>The characters \<^verbatim>\<open>\s\<close> matches, which are those of \<^verbatim>\<open>str.isspace\<close>.\<close>

definition whitespace :: "codepoint list" where
  "whitespace =
     [0x9, 0xA, 0xB, 0xC, 0xD, 0x1C, 0x1D, 0x1E, 0x1F, 0x20, 0x85, 0xA0, 0x1680, 0x2000,
      0x2001, 0x2002, 0x2003, 0x2004, 0x2005, 0x2006, 0x2007, 0x2008, 0x2009, 0x200A,
      0x2028, 0x2029, 0x202F, 0x205F, 0x3000]"

definition is_space :: "codepoint \<Rightarrow> bool" where
  "is_space c = (c \<in> set whitespace)"

text \<open>
  The characters \<^verbatim>\<open>\d\<close> matches are the decimal digits (category Nd); they come in
  runs of ten, listed by their digit zero.
\<close>

definition digit_zeros :: "codepoint list" where
  "digit_zeros =
     [0x30, 0x660, 0x6F0, 0x7C0, 0x966, 0x9E6, 0xA66, 0xAE6, 0xB66, 0xBE6, 0xC66, 0xCE6,
      0xD66, 0xDE6, 0xE50, 0xED0, 0xF20, 0x1040, 0x1090, 0x17E0, 0x1810, 0x1946, 0x19D0,
      0x1A80, 0x1A90, 0x1B50, 0x1BB0, 0x1C40, 0x1C50, 0xA620, 0xA8D0, 0xA900, 0xA9D0,
      0xA9F0, 0xAA50, 0xABF0, 0xFF10, 0x104A0, 0x10D30, 0x11066, 0x110F0, 0x11136, 0x111D0,
      0x112F0, 0x11450, 0x114D0, 0x11650, 0x116C0, 0x11730, 0x118E0, 0x11950, 0x11C50,
      0x11D50, 0x11DA0, 0x16A60, 0x16AC0, 0x16B50, 0x1D7CE, 0x1D7D8, 0x1D7E2, 0x1D7EC,
      0x1D7F6, 0x1E140, 0x1E2F0, 0x1E950, 0x1FBF0]"

definition is_digit :: "codepoint \<Rightarrow> bool" where
  "is_digit c = list_ex (\<lambda>zero. zero \<le> c \<and> c < zero + 10) digit_zeros"

text \<open>
  The simple lowercase mapping. An entry \<open>(lo, hi, step, target)\<close> of the table
  maps \<open>first\<close> to \<open>target\<close>, and every \<open>step\<close>-th code point up to \<open>last\<close> to the code
  point at the same distance from \<open>target\<close>. The table holds the code points from
  \<^verbatim>\<open>U+0080\<close> on; below, the letters A to Z go to a to z.
\<close>

definition lowercase_table :: "(codepoint \<times> codepoint \<times> int \<times> codepoint) list" where
  "lowercase_table =
     [(0xC0, 0xD6, 1, 0xE0), (0xD8, 0xDE, 1, 0xF8), (0x100, 0x12E, 2, 0x101),
      (0x132, 0x136, 2, 0x133), (0x139, 0x147, 2, 0x13A), (0x14A, 0x176, 2, 0x14B),
      (0x178, 0x178, 1, 0xFF), (0x179, 0x17D, 2, 0x17A), (0x181, 0x181, 1, 0x253),
      (0x182, 0x184, 2, 0x183), (0x186, 0x186, 1, 0x254), (0x187, 0x187, 1, 0x188),
      (0x189, 0x18A, 1, 0x256), (0x18B, 0x18B, 1, 0x18C), (0x18E, 0x18E, 1, 0x1DD),
      (0x18F, 0x18F, 1, 0x259), (0x190, 0x190, 1, 0x25B), (0x191, 0x191, 1, 0x192),
      (0x193, 0x193, 1, 0x260), (0x194, 0x194, 1, 0x263), (0x196, 0x196, 1, 0x269),
      (0x197, 0x197, 1, 0x268), (0x198, 0x198, 1, 0x199), (0x19C, 0x19C, 1, 0x26F),
      (0x19D, 0x19D, 1, 0x272), (0x19F, 0x19F, 1, 0x275), (0x1A0, 0x1A4, 2, 0x1A1),
      (0x1A6, 0x1A6, 1, 0x280), (0x1A7, 0x1A7, 1, 0x1A8), (0x1A9, 0x1A9, 1, 0x283),
      (0x1AC, 0x1AC, 1, 0x1AD), (0x1AE, 0x1AE, 1, 0x288), (0x1AF, 0x1AF, 1, 0x1B0),
      (0x1B1, 0x1B2, 1, 0x28A), (0x1B3, 0x1B5, 2, 0x1B4), (0x1B7, 0x1B7, 1, 0x292),
      (0x1B8, 0x1B8, 1, 0x1B9), (0x1BC, 0x1BC, 1, 0x1BD), (0x1C4, 0x1C4, 1, 0x1C6),
      (0x1C5, 0x1C5, 1, 0x1C6), (0x1C7, 0x1C7, 1, 0x1C9), (0x1C8, 0x1C8, 1, 0x1C9),
      (0x1CA, 0x1CA, 1, 0x1CC), (0x1CB, 0x1DB, 2, 0x1CC), (0x1DE, 0x1EE, 2, 0x1DF),
      (0x1F1, 0x1F1, 1, 0x1F3), (0x1F2, 0x1F4, 2, 0x1F3), (0x1F6, 0x1F6, 1, 0x195),
      (0x1F7, 0x1F7, 1, 0x1BF), (0x1F8, 0x21E, 2, 0x1F9), (0x220, 0x220, 1, 0x19E),
      (0x222, 0x232, 2, 0x223), (0x23A, 0x23A, 1, 0x2C65), (0x23B, 0x23B, 1, 0x23C),
      (0x23D, 0x23D, 1, 0x19A), (0x23E, 0x23E, 1, 0x2C66), (0x241, 0x241, 1, 0x242),
      (0x243, 0x243, 1, 0x180), (0x244, 0x244, 1, 0x289), (0x245, 0x245, 1, 0x28C),
      (0x246, 0x24E, 2, 0x247), (0x370, 0x372, 2, 0x371), (0x376, 0x376, 1, 0x377),
      (0x37F, 0x37F, 1, 0x3F3), (0x386, 0x386, 1, 0x3AC), (0x388, 0x38A, 1, 0x3AD),
      (0x38C, 0x38C, 1, 0x3CC), (0x38E, 0x38F, 1, 0x3CD), (0x391, 0x3A1, 1, 0x3B1),
      (0x3A3, 0x3AB, 1, 0x3C3), (0x3CF, 0x3CF, 1, 0x3D7), (0x3D8, 0x3EE, 2, 0x3D9),
      (0x3F4, 0x3F4, 1, 0x3B8), (0x3F7, 0x3F7, 1, 0x3F8), (0x3F9, 0x3F9, 1, 0x3F2),
      (0x3FA, 0x3FA, 1, 0x3FB), (0x3FD, 0x3FF, 1, 0x37B), (0x400, 0x40F, 1, 0x450),
      (0x410, 0x42F, 1, 0x430), (0x460, 0x480, 2, 0x461), (0x48A, 0x4BE, 2, 0x48B),
      (0x4C0, 0x4C0, 1, 0x4CF), (0x4C1, 0x4CD, 2, 0x4C2), (0x4D0, 0x52E, 2, 0x4D1),
      (0x531, 0x556, 1, 0x561), (0x10A0, 0x10C5, 1, 0x2D00), (0x10C7, 0x10C7, 1, 0x2D27),
      (0x10CD, 0x10CD, 1, 0x2D2D), (0x13A0, 0x13EF, 1, 0xAB70),
      (0x13F0, 0x13F5, 1, 0x13F8), (0x1C90, 0x1CBA, 1, 0x10D0),
      (0x1CBD, 0x1CBF, 1, 0x10FD), (0x1E00, 0x1E94, 2, 0x1E01), (0x1E9E, 0x1E9E, 1, 0xDF),
      (0x1EA0, 0x1EFE, 2, 0x1EA1), (0x1F08, 0x1F0F, 1, 0x1F00),
      (0x1F18, 0x1F1D, 1, 0x1F10), (0x1F28, 0x1F2F, 1, 0x1F20),
      (0x1F38, 0x1F3F, 1, 0x1F30), (0x1F48, 0x1F4D, 1, 0x1F40),
      (0x1F59, 0x1F5F, 2, 0x1F51), (0x1F68, 0x1F6F, 1, 0x1F60),
      (0x1F88, 0x1F8F, 1, 0x1F80), (0x1F98, 0x1F9F, 1, 0x1F90),
      (0x1FA8, 0x1FAF, 1, 0x1FA0), (0x1FB8, 0x1FB9, 1, 0x1FB0),
      (0x1FBA, 0x1FBB, 1, 0x1F70), (0x1FBC, 0x1FBC, 1, 0x1FB3),
      (0x1FC8, 0x1FCB, 1, 0x1F72), (0x1FCC, 0x1FCC, 1, 0x1FC3),
      (0x1FD8, 0x1FD9, 1, 0x1FD0), (0x1FDA, 0x1FDB, 1, 0x1F76),
      (0x1FE8, 0x1FE9, 1, 0x1FE0), (0x1FEA, 0x1FEB, 1, 0x1F7A),
      (0x1FEC, 0x1FEC, 1, 0x1FE5), (0x1FF8, 0x1FF9, 1, 0x1F78),
      (0x1FFA, 0x1FFB, 1, 0x1F7C), (0x1FFC, 0x1FFC, 1, 0x1FF3), (0x2126, 0x2126, 1, 0x3C9),
      (0x212A, 0x212A, 1, 0x6B), (0x212B, 0x212B, 1, 0xE5), (0x2132, 0x2132, 1, 0x214E),
      (0x2160, 0x216F, 1, 0x2170), (0x2183, 0x2183, 1, 0x2184),
      (0x24B6, 0x24CF, 1, 0x24D0), (0x2C00, 0x2C2F, 1, 0x2C30),
      (0x2C60, 0x2C60, 1, 0x2C61), (0x2C62, 0x2C62, 1, 0x26B), (0x2C63, 0x2C63, 1, 0x1D7D),
      (0x2C64, 0x2C64, 1, 0x27D), (0x2C67, 0x2C6B, 2, 0x2C68), (0x2C6D, 0x2C6D, 1, 0x251),
      (0x2C6E, 0x2C6E, 1, 0x271), (0x2C6F, 0x2C6F, 1, 0x250), (0x2C70, 0x2C70, 1, 0x252),
      (0x2C72, 0x2C72, 1, 0x2C73), (0x2C75, 0x2C75, 1, 0x2C76), (0x2C7E, 0x2C7F, 1, 0x23F),
      (0x2C80, 0x2CE2, 2, 0x2C81), (0x2CEB, 0x2CED, 2, 0x2CEC),
      (0x2CF2, 0x2CF2, 1, 0x2CF3), (0xA640, 0xA66C, 2, 0xA641),
      (0xA680, 0xA69A, 2, 0xA681), (0xA722, 0xA72E, 2, 0xA723),
      (0xA732, 0xA76E, 2, 0xA733), (0xA779, 0xA77B, 2, 0xA77A),
      (0xA77D, 0xA77D, 1, 0x1D79), (0xA77E, 0xA786, 2, 0xA77F),
      (0xA78B, 0xA78B, 1, 0xA78C), (0xA78D, 0xA78D, 1, 0x265), (0xA790, 0xA792, 2, 0xA791),
      (0xA796, 0xA7A8, 2, 0xA797), (0xA7AA, 0xA7AA, 1, 0x266), (0xA7AB, 0xA7AB, 1, 0x25C),
      (0xA7AC, 0xA7AC, 1, 0x261), (0xA7AD, 0xA7AD, 1, 0x26C), (0xA7AE, 0xA7AE, 1, 0x26A),
      (0xA7B0, 0xA7B0, 1, 0x29E), (0xA7B1, 0xA7B1, 1, 0x287), (0xA7B2, 0xA7B2, 1, 0x29D),
      (0xA7B3, 0xA7B3, 1, 0xAB53), (0xA7B4, 0xA7C2, 2, 0xA7B5),
      (0xA7C4, 0xA7C4, 1, 0xA794), (0xA7C5, 0xA7C5, 1, 0x282), (0xA7C6, 0xA7C6, 1, 0x1D8E),
      (0xA7C7, 0xA7C9, 2, 0xA7C8), (0xA7D0, 0xA7D0, 1, 0xA7D1),
      (0xA7D6, 0xA7D8, 2, 0xA7D7), (0xA7F5, 0xA7F5, 1, 0xA7F6),
      (0xFF21, 0xFF3A, 1, 0xFF41), (0x10400, 0x10427, 1, 0x10428),
      (0x104B0, 0x104D3, 1, 0x104D8), (0x10570, 0x1057A, 1, 0x10597),
      (0x1057C, 0x1058A, 1, 0x105A3), (0x1058C, 0x10592, 1, 0x105B3),
      (0x10594, 0x10595, 1, 0x105BB), (0x10C80, 0x10CB2, 1, 0x10CC0),
      (0x118A0, 0x118BF, 1, 0x118C0), (0x16E40, 0x16E5F, 1, 0x16E60),
      (0x1E900, 0x1E921, 1, 0x1E922)]"

definition simple_lower :: "codepoint \<Rightarrow> codepoint" where
  "simple_lower c =
     (if c < 0x80 then (if 0x41 \<le> c \<and> c \<le> 0x5A then c + 0x20 else c)
      else if c = 0x130 then 0x69
      else (case find (\<lambda>(lo, hi, step, target).
                         lo \<le> c \<and> c \<le> hi \<and> (c - lo) mod step = 0)
                   lowercase_table of
              None \<Rightarrow> c
            | Some (lo, hi, step, target) \<Rightarrow> target + (c - lo)))"

text \<open>
  \<^verbatim>\<open>str.lower\<close> maps every character by the full lowercase mapping, which is the simple
  one except for \<^verbatim>\<open>U+0130\<close>, and maps the capital sigma \<^verbatim>\<open>U+03A3\<close> to the final sigma
  when a cased character precedes it and none follows it, case-ignorable characters
  skipped on both sides.
\<close>

definition case_ignorable_ranges :: "(codepoint \<times> codepoint) list" where
  "case_ignorable_ranges =
     [(0x27, 0x27), (0x2E, 0x2E), (0x3A, 0x3A), (0x5E, 0x5E), (0x60, 0x60), (0xA8, 0xA8),
      (0xAD, 0xAD), (0xAF, 0xAF), (0xB4, 0xB4), (0xB7, 0xB8), (0x2B0, 0x36F),
      (0x374, 0x375), (0x37A, 0x37A), (0x384, 0x385), (0x387, 0x387), (0x483, 0x489),
      (0x559, 0x559), (0x55F, 0x55F), (0x591, 0x5BD), (0x5BF, 0x5BF), (0x5C1, 0x5C2),
      (0x5C4, 0x5C5), (0x5C7, 0x5C7), (0x5F4, 0x5F4), (0x600, 0x605), (0x610, 0x61A),
      (0x61C, 0x61C), (0x640, 0x640), (0x64B, 0x65F), (0x670, 0x670), (0x6D6, 0x6DD),
      (0x6DF, 0x6E8), (0x6EA, 0x6ED), (0x70F, 0x70F), (0x711, 0x711), (0x730, 0x74A),
      (0x7A6, 0x7B0), (0x7EB, 0x7F5), (0x7FA, 0x7FA), (0x7FD, 0x7FD), (0x816, 0x82D),
      (0x859, 0x85B), (0x888, 0x888), (0x890, 0x891), (0x898, 0x89F), (0x8C9, 0x902),
      (0x93A, 0x93A), (0x93C, 0x93C), (0x941, 0x948), (0x94D, 0x94D), (0x951, 0x957),
      (0x962, 0x963), (0x971, 0x971), (0x981, 0x981), (0x9BC, 0x9BC), (0x9C1, 0x9C4),
      (0x9CD, 0x9CD), (0x9E2, 0x9E3), (0x9FE, 0x9FE), (0xA01, 0xA02), (0xA3C, 0xA3C),
      (0xA41, 0xA42), (0xA47, 0xA48), (0xA4B, 0xA4D), (0xA51, 0xA51), (0xA70, 0xA71),
      (0xA75, 0xA75), (0xA81, 0xA82), (0xABC, 0xABC), (0xAC1, 0xAC5), (0xAC7, 0xAC8),
      (0xACD, 0xACD), (0xAE2, 0xAE3), (0xAFA, 0xAFF), (0xB01, 0xB01), (0xB3C, 0xB3C),
      (0xB3F, 0xB3F), (0xB41, 0xB44), (0xB4D, 0xB4D), (0xB55, 0xB56), (0xB62, 0xB63),
      (0xB82, 0xB82), (0xBC0, 0xBC0), (0xBCD, 0xBCD), (0xC00, 0xC00), (0xC04, 0xC04),
      (0xC3C, 0xC3C), (0xC3E, 0xC40), (0xC46, 0xC48), (0xC4A, 0xC4D), (0xC55, 0xC56),
      (0xC62, 0xC63), (0xC81, 0xC81), (0xCBC, 0xCBC), (0xCBF, 0xCBF), (0xCC6, 0xCC6),
      (0xCCC, 0xCCD), (0xCE2, 0xCE3), (0xD00, 0xD01), (0xD3B, 0xD3C), (0xD41, 0xD44),
      (0xD4D, 0xD4D), (0xD62, 0xD63), (0xD81, 0xD81), (0xDCA, 0xDCA), (0xDD2, 0xDD4),
      (0xDD6, 0xDD6), (0xE31, 0xE31), (0xE34, 0xE3A), (0xE46, 0xE4E), (0xEB1, 0xEB1),
      (0xEB4, 0xEBC), (0xEC6, 0xEC6), (0xEC8, 0xECD), (0xF18, 0xF19), (0xF35, 0xF35),
      (0xF37, 0xF37), (0xF39, 0xF39), (0xF71, 0xF7E), (0xF80, 0xF84), (0xF86, 0xF87),
      (0xF8D, 0xF97), (0xF99, 0xFBC), (0xFC6, 0xFC6), (0x102D, 0x1030), (0x1032, 0x1037),
      (0x1039, 0x103A), (0x103D, 0x103E), (0x1058, 0x1059), (0x105E, 0x1060),
      (0x1071, 0x1074), (0x1082, 0x1082), (0x1085, 0x1086), (0x108D, 0x108D),
      (0x109D, 0x109D), (0x10FC, 0x10FC), (0x135D, 0x135F), (0x1712, 0x1714),
      (0x1732, 0x1733), (0x1752, 0x1753), (0x1772, 0x1773), (0x17B4, 0x17B5),
      (0x17B7, 0x17BD), (0x17C6, 0x17C6), (0x17C9, 0x17D3), (0x17D7, 0x17D7),
      (0x17DD, 0x17DD), (0x180B, 0x180F), (0x1843, 0x1843), (0x1885, 0x1886),
      (0x18A9, 0x18A9), (0x1920, 0x1922), (0x1927, 0x1928), (0x1932, 0x1932),
      (0x1939, 0x193B), (0x1A17, 0x1A18), (0x1A1B, 0x1A1B), (0x1A56, 0x1A56),
      (0x1A58, 0x1A5E), (0x1A60, 0x1A60), (0x1A62, 0x1A62), (0x1A65, 0x1A6C),
      (0x1A73, 0x1A7C), (0x1A7F, 0x1A7F), (0x1AA7, 0x1AA7), (0x1AB0, 0x1ACE),
      (0x1B00, 0x1B03), (0x1B34, 0x1B34), (0x1B36, 0x1B3A), (0x1B3C, 0x1B3C),
      (0x1B42, 0x1B42), (0x1B6B, 0x1B73), (0x1B80, 0x1B81), (0x1BA2, 0x1BA5),
      (0x1BA8, 0x1BA9), (0x1BAB, 0x1BAD), (0x1BE6, 0x1BE6), (0x1BE8, 0x1BE9),
      (0x1BED, 0x1BED), (0x1BEF, 0x1BF1), (0x1C2C, 0x1C33), (0x1C36, 0x1C37),
      (0x1C78, 0x1C7D), (0x1CD0, 0x1CD2), (0x1CD4, 0x1CE0), (0x1CE2, 0x1CE8),
      (0x1CED, 0x1CED), (0x1CF4, 0x1CF4), (0x1CF8, 0x1CF9), (0x1D2C, 0x1D6A),
      (0x1D78, 0x1D78), (0x1D9B, 0x1DFF), (0x1FBD, 0x1FBD), (0x1FBF, 0x1FC1),
      (0x1FCD, 0x1FCF), (0x1FDD, 0x1FDF), (0x1FED, 0x1FEF), (0x1FFD, 0x1FFE),
      (0x200B, 0x200F), (0x2018, 0x2019), (0x2024, 0x2024), (0x2027, 0x2027),
      (0x202A, 0x202E), (0x2060, 0x2064), (0x2066, 0x206F), (0x2071, 0x2071),
      (0x207F, 0x207F), (0x2090, 0x209C), (0x20D0, 0x20F0), (0x2C7C, 0x2C7D),
      (0x2CEF, 0x2CF1), (0x2D6F, 0x2D6F), (0x2D7F, 0x2D7F), (0x2DE0, 0x2DFF),
      (0x2E2F, 0x2E2F), (0x3005, 0x3005), (0x302A, 0x302D), (0x3031, 0x3035),
      (0x303B, 0x303B), (0x3099, 0x309E), (0x30FC, 0x30FE), (0xA015, 0xA015),
      (0xA4F8, 0xA4FD), (0xA60C, 0xA60C), (0xA66F, 0xA672), (0xA674, 0xA67D),
      (0xA67F, 0xA67F), (0xA69C, 0xA69F), (0xA6F0, 0xA6F1), (0xA700, 0xA721),
      (0xA770, 0xA770), (0xA788, 0xA78A), (0xA7F2, 0xA7F4), (0xA7F8, 0xA7F9),
      (0xA802, 0xA802), (0xA806, 0xA806), (0xA80B, 0xA80B), (0xA825, 0xA826),
      (0xA82C, 0xA82C), (0xA8C4, 0xA8C5), (0xA8E0, 0xA8F1), (0xA8FF, 0xA8FF),
      (0xA926, 0xA92D), (0xA947, 0xA951), (0xA980, 0xA982), (0xA9B3, 0xA9B3),
      (0xA9B6, 0xA9B9), (0xA9BC, 0xA9BD), (0xA9CF, 0xA9CF), (0xA9E5, 0xA9E6),
      (0xAA29, 0xAA2E), (0xAA31, 0xAA32), (0xAA35, 0xAA36), (0xAA43, 0xAA43),
      (0xAA4C, 0xAA4C), (0xAA70, 0xAA70), (0xAA7C, 0xAA7C), (0xAAB0, 0xAAB0),
      (0xAAB2, 0xAAB4), (0xAAB7, 0xAAB8), (0xAABE, 0xAABF), (0xAAC1, 0xAAC1),
      (0xAADD, 0xAADD), (0xAAEC, 0xAAED), (0xAAF3, 0xAAF4), (0xAAF6, 0xAAF6),
      (0xAB5B, 0xAB5F), (0xAB69, 0xAB6B), (0xABE5, 0xABE5), (0xABE8, 0xABE8),
      (0xABED, 0xABED), (0xFB1E, 0xFB1E), (0xFBB2, 0xFBC2), (0xFE00, 0xFE0F),
      (0xFE13, 0xFE13), (0xFE20, 0xFE2F), (0xFE52, 0xFE52), (0xFE55, 0xFE55),
      (0xFEFF, 0xFEFF), (0xFF07, 0xFF07), (0xFF0E, 0xFF0E), (0xFF1A, 0xFF1A),
      (0xFF3E, 0xFF3E), (0xFF40, 0xFF40), (0xFF70, 0xFF70), (0xFF9E, 0xFF9F),
      (0xFFE3, 0xFFE3), (0xFFF9, 0xFFFB), (0x101FD, 0x101FD), (0x102E0, 0x102E0),
      (0x10376, 0x1037A), (0x10780, 0x10785), (0x10787, 0x107B0), (0x107B2, 0x107BA),
      (0x10A01, 0x10A03), (0x10A05, 0x10A06), (0x10A0C, 0x10A0F), (0x10A38, 0x10A3A),
      (0x10A3F, 0x10A3F), (0x10AE5, 0x10AE6), (0x10D24, 0x10D27), (0x10EAB, 0x10EAC),
      (0x10F46, 0x10F50), (0x10F82, 0x10F85), (0x11001, 0x11001), (0x11038, 0x11046),
      (0x11070, 0x11070), (0x11073, 0x11074), (0x1107F, 0x11081), (0x110B3, 0x110B6),
      (0x110B9, 0x110BA), (0x110BD, 0x110BD), (0x110C2, 0x110C2), (0x110CD, 0x110CD),
      (0x11100, 0x11102), (0x11127, 0x1112B), (0x1112D, 0x11134), (0x11173, 0x11173),
      (0x11180, 0x11181), (0x111B6, 0x111BE), (0x111C9, 0x111CC), (0x111CF, 0x111CF),
      (0x1122F, 0x11231), (0x11234, 0x11234), (0x11236, 0x11237), (0x1123E, 0x1123E),
      (0x112DF, 0x112DF), (0x112E3, 0x112EA), (0x11300, 0x11301), (0x1133B, 0x1133C),
      (0x11340, 0x11340), (0x11366, 0x1136C), (0x11370, 0x11374), (0x11438, 0x1143F),
      (0x11442, 0x11444), (0x11446, 0x11446), (0x1145E, 0x1145E), (0x114B3, 0x114B8),
      (0x114BA, 0x114BA), (0x114BF, 0x114C0), (0x114C2, 0x114C3), (0x115B2, 0x115B5),
      (0x115BC, 0x115BD), (0x115BF, 0x115C0), (0x115DC, 0x115DD), (0x11633, 0x1163A),
      (0x1163D, 0x1163D), (0x1163F, 0x11640), (0x116AB, 0x116AB), (0x116AD, 0x116AD),
      (0x116B0, 0x116B5), (0x116B7, 0x116B7), (0x1171D, 0x1171F), (0x11722, 0x11725),
      (0x11727, 0x1172B), (0x1182F, 0x11837), (0x11839, 0x1183A), (0x1193B, 0x1193C),
      (0x1193E, 0x1193E), (0x11943, 0x11943), (0x119D4, 0x119D7), (0x119DA, 0x119DB),
      (0x119E0, 0x119E0), (0x11A01, 0x11A0A), (0x11A33, 0x11A38), (0x11A3B, 0x11A3E),
      (0x11A47, 0x11A47), (0x11A51, 0x11A56), (0x11A59, 0x11A5B), (0x11A8A, 0x11A96),
      (0x11A98, 0x11A99), (0x11C30, 0x11C36), (0x11C38, 0x11C3D), (0x11C3F, 0x11C3F),
      (0x11C92, 0x11CA7), (0x11CAA, 0x11CB0), (0x11CB2, 0x11CB3), (0x11CB5, 0x11CB6),
      (0x11D31, 0x11D36), (0x11D3A, 0x11D3A), (0x11D3C, 0x11D3D), (0x11D3F, 0x11D45),
      (0x11D47, 0x11D47), (0x11D90, 0x11D91), (0x11D95, 0x11D95), (0x11D97, 0x11D97),
      (0x11EF3, 0x11EF4), (0x13430, 0x13438), (0x16AF0, 0x16AF4), (0x16B30, 0x16B36),
      (0x16B40, 0x16B43), (0x16F4F, 0x16F4F), (0x16F8F, 0x16F9F), (0x16FE0, 0x16FE1),
      (0x16FE3, 0x16FE4), (0x1AFF0, 0x1AFF3), (0x1AFF5, 0x1AFFB), (0x1AFFD, 0x1AFFE),
      (0x1BC9D, 0x1BC9E), (0x1BCA0, 0x1BCA3), (0x1CF00, 0x1CF2D), (0x1CF30, 0x1CF46),
      (0x1D167, 0x1D169), (0x1D173, 0x1D182), (0x1D185, 0x1D18B), (0x1D1AA, 0x1D1AD),
      (0x1D242, 0x1D244), (0x1DA00, 0x1DA36), (0x1DA3B, 0x1DA6C), (0x1DA75, 0x1DA75),
      (0x1DA84, 0x1DA84), (0x1DA9B, 0x1DA9F), (0x1DAA1, 0x1DAAF), (0x1E000, 0x1E006),
      (0x1E008, 0x1E018), (0x1E01B, 0x1E021), (0x1E023, 0x1E024), (0x1E026, 0x1E02A),
      (0x1E130, 0x1E13D), (0x1E2AE, 0x1E2AE), (0x1E2EC, 0x1E2EF), (0x1E8D0, 0x1E8D6),
      (0x1E944, 0x1E94B), (0x1F3FB, 0x1F3FF), (0xE0001, 0xE0001), (0xE0020, 0xE007F),
      (0xE0100, 0xE01EF)]"

definition cased_ranges :: "(codepoint \<times> codepoint) list" where
  "cased_ranges =
     [(0x41, 0x5A), (0x61, 0x7A), (0xAA, 0xAA), (0xB5, 0xB5), (0xBA, 0xBA), (0xC0, 0xD6),
      (0xD8, 0xF6), (0xF8, 0x1BA), (0x1BC, 0x1BF), (0x1C4, 0x293), (0x295, 0x2B8),
      (0x2C0, 0x2C1), (0x2E0, 0x2E4), (0x345, 0x345), (0x370, 0x373), (0x376, 0x377),
      (0x37A, 0x37D), (0x37F, 0x37F), (0x386, 0x386), (0x388, 0x38A), (0x38C, 0x38C),
      (0x38E, 0x3A1), (0x3A3, 0x3F5), (0x3F7, 0x481), (0x48A, 0x52F), (0x531, 0x556),
      (0x560, 0x588), (0x10A0, 0x10C5), (0x10C7, 0x10C7), (0x10CD, 0x10CD),
      (0x10D0, 0x10FA), (0x10FD, 0x10FF), (0x13A0, 0x13F5), (0x13F8, 0x13FD),
      (0x1C80, 0x1C88), (0x1C90, 0x1CBA), (0x1CBD, 0x1CBF), (0x1D00, 0x1DBF),
      (0x1E00, 0x1F15), (0x1F18, 0x1F1D), (0x1F20, 0x1F45), (0x1F48, 0x1F4D),
      (0x1F50, 0x1F57), (0x1F59, 0x1F59), (0x1F5B, 0x1F5B), (0x1F5D, 0x1F5D),
      (0x1F5F, 0x1F7D), (0x1F80, 0x1FB4), (0x1FB6, 0x1FBC), (0x1FBE, 0x1FBE),
      (0x1FC2, 0x1FC4), (0x1FC6, 0x1FCC), (0x1FD0, 0x1FD3), (0x1FD6, 0x1FDB),
      (0x1FE0, 0x1FEC), (0x1FF2, 0x1FF4), (0x1FF6, 0x1FFC), (0x2071, 0x2071),
      (0x207F, 0x207F), (0x2090, 0x209C), (0x2102, 0x2102), (0x2107, 0x2107),
      (0x210A, 0x2113), (0x2115, 0x2115), (0x2119, 0x211D), (0x2124, 0x2124),
      (0x2126, 0x2126), (0x2128, 0x2128), (0x212A, 0x212D), (0x212F, 0x2134),
      (0x2139, 0x2139), (0x213C, 0x213F), (0x2145, 0x2149), (0x214E, 0x214E),
      (0x2160, 0x217F), (0x2183, 0x2184), (0x24B6, 0x24E9), (0x2C00, 0x2CE4),
      (0x2CEB, 0x2CEE), (0x2CF2, 0x2CF3), (0x2D00, 0x2D25), (0x2D27, 0x2D27),
      (0x2D2D, 0x2D2D), (0xA640, 0xA66D), (0xA680, 0xA69D), (0xA722, 0xA787),
      (0xA78B, 0xA78E), (0xA790, 0xA7CA), (0xA7D0, 0xA7D1), (0xA7D3, 0xA7D3),
      (0xA7D5, 0xA7D9), (0xA7F5, 0xA7F6), (0xA7F8, 0xA7FA), (0xAB30, 0xAB5A),
      (0xAB5C, 0xAB68), (0xAB70, 0xABBF), (0xFB00, 0xFB06), (0xFB13, 0xFB17),
      (0xFF21, 0xFF3A), (0xFF41, 0xFF5A), (0x10400, 0x1044F), (0x104B0, 0x104D3),
      (0x104D8, 0x104FB), (0x10570, 0x1057A), (0x1057C, 0x1058A), (0x1058C, 0x10592),
      (0x10594, 0x10595), (0x10597, 0x105A1), (0x105A3, 0x105B1), (0x105B3, 0x105B9),
      (0x105BB, 0x105BC), (0x10780, 0x10780), (0x10783, 0x10785), (0x10787, 0x107B0),
      (0x107B2, 0x107BA), (0x10C80, 0x10CB2), (0x10CC0, 0x10CF2), (0x118A0, 0x118DF),
      (0x16E40, 0x16E7F), (0x1D400, 0x1D454), (0x1D456, 0x1D49C), (0x1D49E, 0x1D49F),
      (0x1D4A2, 0x1D4A2), (0x1D4A5, 0x1D4A6), (0x1D4A9, 0x1D4AC), (0x1D4AE, 0x1D4B9),
      (0x1D4BB, 0x1D4BB), (0x1D4BD, 0x1D4C3), (0x1D4C5, 0x1D505), (0x1D507, 0x1D50A),
      (0x1D50D, 0x1D514), (0x1D516, 0x1D51C), (0x1D51E, 0x1D539), (0x1D53B, 0x1D53E),
      (0x1D540, 0x1D544), (0x1D546, 0x1D546), (0x1D54A, 0x1D550), (0x1D552, 0x1D6A5),
      (0x1D6A8, 0x1D6C0), (0x1D6C2, 0x1D6DA), (0x1D6DC, 0x1D6FA), (0x1D6FC, 0x1D714),
      (0x1D716, 0x1D734), (0x1D736, 0x1D74E), (0x1D750, 0x1D76E), (0x1D770, 0x1D788),
      (0x1D78A, 0x1D7A8), (0x1D7AA, 0x1D7C2), (0x1D7C4, 0x1D7CB), (0x1DF00, 0x1DF09),
      (0x1DF0B, 0x1DF1E), (0x1E900, 0x1E943), (0x1F130, 0x1F149), (0x1F150, 0x1F169),
      (0x1F170, 0x1F189)]"

definition in_ranges :: "(codepoint \<times> codepoint) list \<Rightarrow> codepoint \<Rightarrow> bool" where
  "in_ranges ranges c = list_ex (\<lambda>(lo, hi). lo \<le> c \<and> c \<le> hi) ranges"

definition is_case_ignorable :: "codepoint \<Rightarrow> bool" where
  "is_case_ignorable c = in_ranges case_ignorable_ranges c"

definition is_cased :: "codepoint \<Rightarrow> bool" where
  "is_cased c = in_ranges cased_ranges c"

text \<open>
  Whether a capital sigma is final; \<open>before\<close> holds the characters before it, the
  nearest first, and \<open>rest\<close> those after it.
\<close>

definition final_sigma :: "ustring \<Rightarrow> ustring \<Rightarrow> bool" where
  "final_sigma before rest =
     ((case dropWhile is_case_ignorable before of
         [] \<Rightarrow> False
       | b # _ \<Rightarrow> is_cased b)
      \<and> (case dropWhile is_case_ignorable rest of
            [] \<Rightarrow> True
          | a # _ \<Rightarrow> \<not> is_cased a))"

fun lower_from :: "ustring \<Rightarrow> ustring \<Rightarrow> ustring" where
  "lower_from before [] = []"
| "lower_from before (c # rest) =
     (if c = 0x3A3 then [if final_sigma before rest then 0x3C2 else 0x3C3]
      else if c = 0x130 then [0x69, 0x307]
      else [simple_lower c])
     @ lower_from (c # before) rest"

text \<open>\<^verbatim>\<open>s.lower()\<close>.\<close>

definition lower :: "ustring \<Rightarrow> ustring" where
  "lower s = lower_from [] s"

subsection \<open>Regular expressions\<close>

text \<open>
  The patterns of the source use literals, the classes \<^verbatim>\<open>\d\<close>, \<^verbatim>\<open>\s\<close>, \<^verbatim>\<open>["']\<close>
  and \<^verbatim>\<open>[^"']\<close>, and the repetitions \<^verbatim>\<open>*\<close> and \<^verbatim>\<open>+\<close> on one class. A pattern is
  the list of its items; \<open>re_search\<close> is \<^verbatim>\<open>re.search(pattern, s) is not None\<close>, with
  the flag \<^verbatim>\<open>re.IGNORECASE\<close> as its first argument.
\<close>

datatype atom = Lit char | Digit | Space | Quote | NotQuote

datatype item = One atom | Star atom | Plus atom

type_synonym regex = "item list"

definition is_quote :: "codepoint \<Rightarrow> bool" where
  "is_quote c = (c = 0x22 \<or> c = 0x27)"

text \<open>
  With \<^verbatim>\<open>re.IGNORECASE\<close>, a literal of the pattern that is a cased character matches
  the characters whose simple lowercase is the literal's or one of the characters the
  \<^verbatim>\<open>re\<close> module holds equivalent to it; a literal that is not cased matches itself. The
  literals of a pattern are characters up to \<^verbatim>\<open>U+00FF\<close>.
\<close>

definition cased_literal :: "codepoint \<Rightarrow> bool" where
  "cased_literal l =
     in_ranges [(0x41, 0x5A), (0x61, 0x7A), (0xB5, 0xB5), (0xC0, 0xD6), (0xD8, 0xF6), (0xF8, 0xFF)] l"

definition ignorecase_variants :: "codepoint \<Rightarrow> codepoint list" where
  "ignorecase_variants l =
     l # (if l = 0x69 then [0x131] else if l = 0x73 then [0x17F] else if l = 0xB5 then [0x3BC]
          else [])"

fun atom_matches :: "bool \<Rightarrow> atom \<Rightarrow> codepoint \<Rightarrow> bool" where
  "atom_matches ic (Lit l) c =
     (if ic \<and> cased_literal (of_char l)
      then simple_lower c \<in> set (ignorecase_variants (simple_lower (of_char l)))
      else c = of_char l)"
| "atom_matches ic Digit c = is_digit c"
| "atom_matches ic Space c = is_space c"
| "atom_matches ic Quote c = is_quote c"
| "atom_matches ic NotQuote c = (\<not> is_quote c)"

text \<open>Whether the pattern matches a prefix of the string.\<close>

fun match_here :: "bool \<Rightarrow> regex \<Rightarrow> ustring \<Rightarrow> bool" where
  "match_here ic [] s = True"
| "match_here ic (One a # r) [] = False"
| "match_here ic (One a # r) (c # cs) = (atom_matches ic a c \<and> match_here ic r cs)"
| "match_here ic (Star a # r) [] = match_here ic r []"
| "match_here ic (Star a # r) (c # cs) =
     (match_here ic r (c # cs) \<or> (atom_matches ic a c \<and> match_here ic (Star a # r) cs))"
| "match_here ic (Plus a # r) [] = False"
| "match_here ic (Plus a # r) (c # cs) = (atom_matches ic a c \<and> match_here ic (Star a # r) cs)"

fun re_search :: "bool \<Rightarrow> regex \<Rightarrow> ustring \<Rightarrow> bool" where
  "re_search ic r [] = match_here ic r []"
| "re_search ic r (c # cs) = (match_here ic r (c # cs) \<or> re_search ic r cs)"

definition literal :: "string \<Rightarrow> regex" where
  "literal s = map (\<lambda>c. One (Lit c)) s"

subsection \<open>Data model\<close>

datatype Severity = MUST | SHOULD | MAY

fun severity_value :: "Severity \<Rightarrow> string" where
  "severity_value MUST = ''MUST''"
| "severity_value SHOULD = ''SHOULD''"
| "severity_value MAY = ''MAY''"

record RuleViolation =
  rule_id :: string
  severity :: Severity
  description :: string
  file_path :: "string option"
  line_number :: "nat option"
  suggestion :: "string option"

record RuleTestResult =
  result_rule_id :: string
  passed :: bool
  violations :: "RuleViolation list"
  details :: string

text \<open>The dictionary of results, in insertion order.\<close>

type_synonym results = "(string \<times> RuleTestResult) list"

text \<open>\<^verbatim>\<open>results.update(d)\<close>: a present key keeps its place and takes the new value.\<close>

definition dict_update :: "results \<Rightarrow> results \<Rightarrow> results" where
  "dict_update rs d = fold (\<lambda>(k, v). AList.update k v) d rs"

subsection \<open>The file system as the checks see it\<close>

type_synonym path = "string list"

record os =
  exists :: "path \<Rightarrow> bool"
  is_dir :: "path \<Rightarrow> bool"
  rglob :: "path \<Rightarrow> string \<Rightarrow> path list"
  glob :: "path \<Rightarrow> string \<Rightarrow> path list"
  read_text :: "path \<Rightarrow> ustring option"
  path_str :: "path \<Rightarrow> string"

datatype error = ReadError path | ZeroDivisionError | WriteError string

definition project_root :: path where
  "project_root = []"

text \<open>\<^verbatim>\<open>p / name\<close> for a relative name: the parts of the name are appended.\<close>

definition joinpath :: "path \<Rightarrow> string \<Rightarrow> path" where
  "joinpath p name = p @ filter (\<lambda>x. x \<noteq> [] \<and> x \<noteq> ''.'') (split CHR ''/'' name)"

text \<open>\<^verbatim>\<open>len([v for v in violations if v.severity == Severity.MUST])\<close>.\<close>

definition must_count :: "RuleViolation list \<Rightarrow> nat" where
  "must_count vs = length (filter (\<lambda>v. severity v = MUST) vs)"

subsection \<open>The checks\<close>

text \<open>
  Each check builds its list \<^verbatim>\<open>violations\<close> by appending in program order; the model
  appends the lists the successive statements contribute. A loop is a recursive function
  over the list it iterates.
\<close>

definition test_01a_design_principles :: "os \<Rightarrow> results" where
  "test_01a_design_principles fs =
     (let openapi_files = rglob fs project_root ''openapi.yaml''
                            @ rglob fs project_root ''openapi.yml''
                            @ rglob fs project_root ''swagger.yaml'';
          v1 = (if openapi_files = [] then
                  [\<lparr>rule_id = ''01A-001'', severity = MUST,
                    description = ''Missing OpenAPI specification file'',
                    file_path = None, line_number = None,
                    suggestion = Some ''Create docs/openapi.yaml with API specification''\<rparr>]
                else []);
          perf_budget = joinpath project_root ''perf-budget.yaml'';
          v2 = (if \<not> exists fs perf_budget then
                  [\<lparr>rule_id = ''01A-002'', severity = MUST,
                    description = ''Missing performance budget configuration'',
                    file_path = Some ''perf-budget.yaml'', line_number = None,
                    suggestion = Some ''Create perf-budget.yaml with SLO targets''\<rparr>]
                else []);
          adr_dir = joinpath (joinpath project_root ''docs'') ''adr'';
          v3 = (if \<not> exists fs adr_dir then
                  [\<lparr>rule_id = ''01A-003'', severity = MUST,
                    description = ''Missing Architecture Decision Records directory'',
                    file_path = Some ''docs/adr/'', line_number = None,
                    suggestion = Some ''Create docs/adr/ directory with CAP theorem analysis''\<rparr>]
                else []);
          vs = v1 @ v2 @ v3
      in [(''01A'',
           \<lparr>result_rule_id = ''01A'', passed = (length vs = 0),
            violations = vs,
            details = ''Design principles compliance: '' @ str_nat (length vs)
                        @ '' violations found''\<rparr>)])"

text \<open>
  The scans of 01B, 03A and 06A: the files are read in order; a read that raises is
  skipped by the handler; the loop breaks at the first content that satisfies the test.
\<close>

fun scan_files :: "os \<Rightarrow> (ustring \<Rightarrow> bool) \<Rightarrow> path list \<Rightarrow> bool" where
  "scan_files fs hit [] = False"
| "scan_files fs hit (f # rest) =
     (case read_text fs f of
        None \<Rightarrow> scan_files fs hit rest
      | Some content \<Rightarrow> (if hit content then True else scan_files fs hit rest))"

text \<open>The outer loop over the glob patterns, left as soon as a file was found.\<close>

fun scan_patterns :: "os \<Rightarrow> (ustring \<Rightarrow> bool) \<Rightarrow> string list \<Rightarrow> bool" where
  "scan_patterns fs hit [] = False"
| "scan_patterns fs hit (pattern # rest) =
     (if scan_files fs hit (rglob fs project_root pattern) then True
      else scan_patterns fs hit rest)"

definition test_01b_runtime_operations :: "os \<Rightarrow> results" where
  "test_01b_runtime_operations fs =
     (let health_patterns = [''/health'', ''/healthz'', ''/ready''];
          found_health =
            scan_patterns fs (\<lambda>content. list_ex (\<lambda>hp. contains (ustr hp) content) health_patterns)
              [''**/*.yaml'', ''**/*.yml'', ''**/*.json'', ''**/*.py'', ''**/*.js'', ''**/*.ts''];
          vs = (if \<not> found_health then
                  [\<lparr>rule_id = ''01B-001'', severity = MUST,
                    description = ''No health check endpoints found'',
                    file_path = None, line_number = None,
                    suggestion = Some ''Implement /health and /ready endpoints''\<rparr>]
                else [])
      in [(''01B'',
           \<lparr>result_rule_id = ''01B'', passed = (length vs = 0),
            violations = vs,
            details = ''Runtime operations compliance: '' @ str_nat (length vs)
                        @ '' violations found''\<rparr>)])"

text \<open>
  02A, the branch taken when a Dockerfile exists: the loop over the candidates reads the
  first one that exists, outside any handler, and breaks.
\<close>

fun inspect_dockerfile :: "os \<Rightarrow> path list \<Rightarrow> error + RuleViolation list" where
  "inspect_dockerfile fs [] = Inr []"
| "inspect_dockerfile fs (dockerfile_path # rest) =
     (if exists fs dockerfile_path then
        (case read_text fs dockerfile_path of
           None \<Rightarrow> Inl (ReadError dockerfile_path)
         | Some content \<Rightarrow>
             Inr ((if \<not> contains (ustr ''USER '') content then
                     [\<lparr>rule_id = ''02A-002'', severity = MUST,
                       description = ''Dockerfile missing non-root USER directive'',
                       file_path = Some (path_str fs dockerfile_path), line_number = None,
                       suggestion = Some ''Add USER directive to run as non-root''\<rparr>]
                   else [])
                  @ (if \<not> contains (ustr ''HEALTHCHECK'') content then
                       [\<lparr>rule_id = ''02A-003'', severity = SHOULD,
                         description = ''Dockerfile missing HEALTHCHECK directive'',
                         file_path = Some (path_str fs dockerfile_path), line_number = None,
                         suggestion = Some ''Add HEALTHCHECK for container health monitoring''\<rparr>]
                     else [])))
      else inspect_dockerfile fs rest)"

definition dockerfile_paths :: "path list" where
  "dockerfile_paths =
     [joinpath project_root ''Dockerfile'',
      joinpath (joinpath project_root ''docker'') ''Dockerfile'',
      joinpath (joinpath project_root ''build'') ''Dockerfile'']"

definition test_02a_container_design :: "os \<Rightarrow> error + results" where
  "test_02a_container_design fs =
     (let dockerfile_exists = list_ex (exists fs) dockerfile_paths;
          checked = (if \<not> dockerfile_exists then
                       Inr [\<lparr>rule_id = ''02A-001'', severity = MUST,
                             description = ''Missing Dockerfile'',
                             file_path = None, line_number = None,
                             suggestion = Some ''Create Dockerfile with multi-stage build''\<rparr>]
                     else inspect_dockerfile fs dockerfile_paths)
      in case checked of
           Inl e \<Rightarrow> Inl e
         | Inr vs \<Rightarrow>
             Inr [(''02A'',
                   \<lparr>result_rule_id = ''02A'', passed = (must_count vs = 0),
                    violations = vs,
                    details = ''Container design compliance: '' @ str_nat (length vs)
                                @ '' violations found''\<rparr>)])"

definition test_06a_api_design :: "os \<Rightarrow> results" where
  "test_06a_api_design fs =
     (let api_files = rglob fs project_root ''*.py'' @ rglob fs project_root ''*.js''
                        @ rglob fs project_root ''*.ts'' @ rglob fs project_root ''*.go''
                        @ rglob fs project_root ''*.java'';
          versioned_endpoints_found =
            scan_files fs
              (re_search False (literal ''/v'' @ [Plus Digit] @ literal ''/''))
              api_files;
          vs = (if \<not> versioned_endpoints_found then
                  [\<lparr>rule_id = ''06A-001'', severity = MUST,
                    description = ''No versioned API endpoints found'',
                    file_path = None, line_number = None,
                    suggestion =
                      Some ''Implement versioned endpoints (e.g., /v1/users, /v2/orders)''\<rparr>]
                else [])
      in [(''06A'',
           \<lparr>result_rule_id = ''06A'', passed = (length vs = 0),
            violations = vs,
            details = ''API design compliance: '' @ str_nat (length vs)
                        @ '' violations found''\<rparr>)])"

definition test_07a_testing_strategy :: "os \<Rightarrow> results" where
  "test_07a_testing_strategy fs =
     (let test_dirs = [joinpath project_root ''tests'', joinpath project_root ''test'',
                       joinpath project_root ''__tests__'', joinpath project_root ''spec''];
          test_dir_exists = list_ex (\<lambda>path. exists fs path \<and> is_dir fs path) test_dirs;
          v1 = (if \<not> test_dir_exists then
                  [\<lparr>rule_id = ''07A-001'', severity = MUST,
                    description = ''No test directory found'',
                    file_path = None, line_number = None,
                    suggestion =
                      Some ''Create tests/ directory with unit, integration, and e2e tests''\<rparr>]
                else []);
          test_configs = [''jest.config.js'', ''jest.config.json'', ''pytest.ini'',
                          ''test.config.js'', ''vitest.config.js''];
          config_exists = list_ex (\<lambda>config. exists fs (joinpath project_root config)) test_configs;
          v2 = (if \<not> config_exists then
                  [\<lparr>rule_id = ''07A-002'', severity = MUST,
                    description = ''No test configuration found'',
                    file_path = None, line_number = None,
                    suggestion =
                      Some ''Create test configuration file (jest.config.js, pytest.ini, etc.)''\<rparr>]
                else []);
          vs = v1 @ v2
      in [(''07A'',
           \<lparr>result_rule_id = ''07A'', passed = (length vs = 0),
            violations = vs,
            details = ''Testing strategy compliance: '' @ str_nat (length vs)
                        @ '' violations found''\<rparr>)])"

text \<open>
  09A: every workflow file is read outside any handler; the first read that raises ends
  the check with the exception.
\<close>

definition required_stages :: "string list" where
  "required_stages = [''test'', ''build'', ''security'']"

fun check_workflows :: "os \<Rightarrow> path list \<Rightarrow> error + RuleViolation list" where
  "check_workflows fs [] = Inr []"
| "check_workflows fs (workflow_file # rest) =
     (case read_text fs workflow_file of
        None \<Rightarrow> Inl (ReadError workflow_file)
      | Some content \<Rightarrow>
          (let missing_stages = filter (\<lambda>stage. \<not> contains (ustr stage) (lower content)) required_stages;
               v = (if missing_stages \<noteq> [] then
                      [\<lparr>rule_id = ''09A-002'', severity = SHOULD,
                        description = ''Workflow missing stages: '' @ join '', '' missing_stages,
                        file_path = Some (path_str fs workflow_file), line_number = None,
                        suggestion = Some ''Add test, build, and security stages to pipeline''\<rparr>]
                    else [])
           in case check_workflows fs rest of
                Inl e \<Rightarrow> Inl e
              | Inr vs \<Rightarrow> Inr (v @ vs)))"

definition test_09a_cicd_pipelines :: "os \<Rightarrow> error + results" where
  "test_09a_cicd_pipelines fs =
     (let cicd_files = [''.github/workflows'', ''.gitlab-ci.yml'', ''.travis.yml'',
                        ''azure-pipelines.yml'', ''Jenkinsfile'', ''.circleci/config.yml''];
          cicd_exists = list_ex (\<lambda>config. exists fs (joinpath project_root config)) cicd_files;
          v1 = (if \<not> cicd_exists then
                  [\<lparr>rule_id = ''09A-001'', severity = MUST,
                    description = ''No CI/CD pipeline configuration found'',
                    file_path = None, line_number = None,
                    suggestion =
                      Some ''Create .github/workflows/ci-cd.yml or equivalent pipeline''\<rparr>]
                else []);
          gh_workflows = joinpath (joinpath project_root ''.github'') ''workflows'';
          checked = (if exists fs gh_workflows then
                       check_workflows fs (glob fs gh_workflows ''*.yml''
                                             @ glob fs gh_workflows ''*.yaml'')
                     else Inr [])
      in case checked of
           Inl e \<Rightarrow> Inl e
         | Inr v2 \<Rightarrow>
             (let vs = v1 @ v2
              in Inr [(''09A'',
                       \<lparr>result_rule_id = ''09A'', passed = (must_count vs = 0),
                        violations = vs,
                        details = ''CI/CD pipeline compliance: '' @ str_nat (length vs)
                                    @ '' violations found''\<rparr>)]))"

definition test_03a_authentication :: "os \<Rightarrow> results" where
  "test_03a_authentication fs =
     (let auth_patterns = [''auth'', ''jwt'', ''oauth'', ''saml'', ''ldap''];
          auth_files_found =
            scan_patterns fs
              (\<lambda>text. list_ex (\<lambda>auth_pattern. contains (ustr auth_pattern) (lower text)) auth_patterns)
              [''**/*.yaml'', ''**/*.yml'', ''**/*.json'', ''**/*.env*''];
          vs = (if \<not> auth_files_found then
                  [\<lparr>rule_id = ''03A-001'', severity = SHOULD,
                    description = ''No authentication configuration found'',
                    file_path = None, line_number = None,
                    suggestion = Some ''Configure authentication system (JWT, OAuth2, etc.)''\<rparr>]
                else [])
      in [(''03A'',
           \<lparr>result_rule_id = ''03A'', passed = (must_count vs = 0),
            violations = vs,
            details = ''Authentication compliance: '' @ str_nat (length vs)
                        @ '' violations found''\<rparr>)])"

text \<open>
  05B: the four patterns share the tail \<^verbatim>\<open>\s*=\s*["'][^"']+["']\<close> and are searched
  with \<^verbatim>\<open>re.IGNORECASE\<close> in every line of every file whose read succeeds.
\<close>

definition assignment_tail :: regex where
  "assignment_tail = [Star Space, One (Lit CHR ''=''), Star Space, One Quote, Plus NotQuote, One Quote]"

definition secret_patterns :: "regex list" where
  "secret_patterns =
     [literal ''password'' @ assignment_tail,
      literal ''api_key'' @ assignment_tail,
      literal ''secret'' @ assignment_tail,
      literal ''token'' @ assignment_tail]"

definition secret_violation :: "os \<Rightarrow> path \<Rightarrow> nat \<Rightarrow> RuleViolation" where
  "secret_violation fs f i =
     \<lparr>rule_id = ''05B-001'', severity = MUST,
      description = ''Potential hardcoded secret found'',
      file_path = Some (path_str fs f), line_number = Some i,
      suggestion =
        Some ''Move secrets to environment variables or secret management system''\<rparr>"

text \<open>The innermost loop: one violation for each pattern found in the line.\<close>

fun scan_line :: "os \<Rightarrow> path \<Rightarrow> nat \<Rightarrow> ustring \<Rightarrow> regex list \<Rightarrow> RuleViolation list" where
  "scan_line fs f i line [] = []"
| "scan_line fs f i line (pattern # rest) =
     (if re_search True pattern line then [secret_violation fs f i] else [])
     @ scan_line fs f i line rest"

text \<open>\<^verbatim>\<open>for i, line in enumerate(lines, 1)\<close>, called with \<open>i = 1\<close>.\<close>

fun scan_lines :: "os \<Rightarrow> path \<Rightarrow> nat \<Rightarrow> ustring list \<Rightarrow> RuleViolation list" where
  "scan_lines fs f i [] = []"
| "scan_lines fs f i (line # rest) =
     scan_line fs f i line secret_patterns @ scan_lines fs f (Suc i) rest"

fun scan_code_files :: "os \<Rightarrow> path list \<Rightarrow> RuleViolation list" where
  "scan_code_files fs [] = []"
| "scan_code_files fs (f # rest) =
     (case read_text fs f of
        None \<Rightarrow> []
      | Some content \<Rightarrow> scan_lines fs f 1 (split 0x0A content))
     @ scan_code_files fs rest"

definition code_files :: "os \<Rightarrow> path list" where
  "code_files fs =
     rglob fs project_root ''*.py'' @ rglob fs project_root ''*.js''
       @ rglob fs project_root ''*.ts'' @ rglob fs project_root ''*.java''
       @ rglob fs project_root ''*.go''"

definition test_05b_secrets_management :: "os \<Rightarrow> results" where
  "test_05b_secrets_management fs =
     (let vs = scan_code_files fs (code_files fs)
      in [(''05B'',
           \<lparr>result_rule_id = ''05B'', passed = (length vs = 0),
            violations = vs,
            details = ''Secrets management compliance: '' @ str_nat (length vs)
                        @ '' violations found''\<rparr>)])"

definition test_08b_logging_standards :: "os \<Rightarrow> results" where
  "test_08b_logging_standards fs =
     (let logging_configs = [''logging.yaml'', ''logging.yml'', ''log4j.properties'',
                             ''logback.xml'', ''winston.config.js''];
          config_exists = list_ex (\<lambda>config. exists fs (joinpath project_root config)) logging_configs;
          vs = (if \<not> config_exists then
                  [\<lparr>rule_id = ''08B-001'', severity = SHOULD,
                    description = ''No logging configuration found'',
                    file_path = None, line_number = None,
                    suggestion = Some ''Create logging configuration with structured format''\<rparr>]
                else [])
      in [(''08B'',
           \<lparr>result_rule_id = ''08B'', passed = (must_count vs = 0),
            violations = vs,
            details = ''Logging standards compliance: '' @ str_nat (length vs)
                        @ '' violations found''\<rparr>)])"

text \<open>The placeholder checks inspect nothing.\<close>

definition test_01c_governance :: results where
  "test_01c_governance =
     [(''01C'', \<lparr>result_rule_id = ''01C'', passed = True, violations = [],
        details = ''Governance principles compliance: 0 violations found''\<rparr>)]"

definition test_02b_network_topology :: results where
  "test_02b_network_topology =
     [(''02B'', \<lparr>result_rule_id = ''02B'', passed = True, violations = [],
        details = ''Network topology compliance: 0 violations found''\<rparr>)]"

definition test_02c_service_metadata :: results where
  "test_02c_service_metadata =
     [(''02C'', \<lparr>result_rule_id = ''02C'', passed = True, violations = [],
        details = ''Service metadata compliance: 0 violations found''\<rparr>)]"

definition test_03b_authorization :: results where
  "test_03b_authorization =
     [(''03B'', \<lparr>result_rule_id = ''03B'', passed = True, violations = [],
        details = ''Authorization compliance: 0 violations found''\<rparr>)]"

definition test_03c_security_encryption :: results where
  "test_03c_security_encryption =
     [(''03C'', \<lparr>result_rule_id = ''03C'', passed = True, violations = [],
        details = ''Security encryption compliance: 0 violations found''\<rparr>)]"

definition test_04a_database_design :: results where
  "test_04a_database_design =
     [(''04A'', \<lparr>result_rule_id = ''04A'', passed = True, violations = [],
        details = ''Database design compliance: 0 violations found''\<rparr>)]"

definition test_04b_database_operations :: results where
  "test_04b_database_operations =
     [(''04B'', \<lparr>result_rule_id = ''04B'', passed = True, violations = [],
        details = ''Database operations compliance: 0 violations found''\<rparr>)]"

definition test_05a_environment_config :: results where
  "test_05a_environment_config =
     [(''05A'', \<lparr>result_rule_id = ''05A'', passed = True, violations = [],
        details = ''Environment config compliance: 0 violations found''\<rparr>)]"

definition test_06b_api_documentation :: results where
  "test_06b_api_documentation =
     [(''06B'', \<lparr>result_rule_id = ''06B'', passed = True, violations = [],
        details = ''API documentation compliance: 0 violations found''\<rparr>)]"

definition test_06c_api_versioning :: results where
  "test_06c_api_versioning =
     [(''06C'', \<lparr>result_rule_id = ''06C'', passed = True, violations = [],
        details = ''API versioning compliance: 0 violations found''\<rparr>)]"

definition test_07b_test_implementation :: results where
  "test_07b_test_implementation =
     [(''07B'', \<lparr>result_rule_id = ''07B'', passed = True, violations = [],
        details = ''Test implementation compliance: 0 violations found''\<rparr>)]"

definition test_07c_test_automation :: results where
  "test_07c_test_automation =
     [(''07C'', \<lparr>result_rule_id = ''07C'', passed = True, violations = [],
        details = ''Test automation compliance: 0 violations found''\<rparr>)]"

definition test_08a_error_handling :: results where
  "test_08a_error_handling =
     [(''08A'', \<lparr>result_rule_id = ''08A'', passed = True, violations = [],
        details = ''Error handling compliance: 0 violations found''\<rparr>)]"

definition test_08c_monitoring :: results where
  "test_08c_monitoring =
     [(''08C'', \<lparr>result_rule_id = ''08C'', passed = True, violations = [],
        details = ''Monitoring compliance: 0 violations found''\<rparr>)]"

subsection \<open>The runner\<close>

text \<open>
  \<^verbatim>\<open>run_all_tests\<close> calls the checks in the order of the source and merges each
  returned dictionary into \<^verbatim>\<open>results\<close>; an exception of a check ends the run there.
\<close>

fun update_all :: "results \<Rightarrow> (error + results) list \<Rightarrow> error + results" where
  "update_all rs [] = Inr rs"
| "update_all rs (c # cs) =
     (case c of
        Inl e \<Rightarrow> Inl e
      | Inr d \<Rightarrow> update_all (dict_update rs d) cs)"

definition run_all_tests :: "os \<Rightarrow> error + results" where
  "run_all_tests fs =
     update_all []
       [Inr (test_01a_design_principles fs),
        Inr (test_01b_runtime_operations fs),
        Inr test_01c_governance,
        test_02a_container_design fs,
        Inr test_02b_network_topology,
        Inr test_02c_service_metadata,
        Inr (test_03a_authentication fs),
        Inr test_03b_authorization,
        Inr test_03c_security_encryption,
        Inr test_04a_database_design,
        Inr test_04b_database_operations,
        Inr test_05a_environment_config,
        Inr (test_05b_secrets_management fs),
        Inr (test_06a_api_design fs),
        Inr test_06b_api_documentation,
        Inr test_06c_api_versioning,
        Inr (test_07a_testing_strategy fs),
        Inr test_07b_test_implementation,
        Inr test_07c_test_automation,
        Inr test_08a_error_handling,
        Inr (test_08b_logging_standards fs),
        Inr test_08c_monitoring,
        test_09a_cicd_pipelines fs]"

subsection \<open>The reporter\<close>

definition NL :: string where
  "NL = [CHR 0x0A]"

text \<open>
  The score \<^verbatim>\<open>passed_rules / total_rules * 100\<close> printed with \<^verbatim>\<open>:.1f\<close>: the decimal
  with one fractional digit nearest to the quotient, a tie going to the even digit. The
  source computes the quotient in binary floating point; the model computes it exactly.
  The two print the same digits unless the exact quotient lies within the rounding error
  of the floating-point operations (below \<open>10\<^sup>-\<^sup>1\<^sup>2\<close>) of a tie, which needs
  \<open>2 * (1000 * passed mod total) = total\<close> up to that error; with the 23 rules of the
  runner the distance to a tie is at least \<open>1 / 46\<close> of the last digit.
\<close>

definition round_half_even :: "nat \<Rightarrow> nat \<Rightarrow> nat" where
  "round_half_even n d =
     (let q = n div d; r = n mod d
      in if 2 * r < d then q
         else if d < 2 * r then q + 1
         else if even q then q else q + 1)"

definition score_tenths :: "nat \<Rightarrow> nat \<Rightarrow> nat" where
  "score_tenths passed_rules total_rules = round_half_even (passed_rules * 1000) total_rules"

definition format_1f :: "nat \<Rightarrow> string" where
  "format_1f tenths = str_nat (tenths div 10) @ ''.'' @ str_nat (tenths mod 10)"

definition passed_rules :: "results \<Rightarrow> nat" where
  "passed_rules rs = length (filter (\<lambda>r. passed r) (map snd rs))"

definition total_violations :: "results \<Rightarrow> nat" where
  "total_violations rs = sum_list (map (\<lambda>r. length (violations r)) (map snd rs))"

definition must_violations :: "results \<Rightarrow> nat" where
  "must_violations rs = sum_list (map (\<lambda>r. must_count (violations r)) (map snd rs))"

text \<open>The score of the summary, in tenths of a percent.\<close>

definition compliance_score :: "results \<Rightarrow> nat" where
  "compliance_score rs = score_tenths (passed_rules rs) (length rs)"

definition render_violation :: "RuleViolation \<Rightarrow> string" where
  "render_violation violation =
     ''- ['' @ severity_value (severity violation) @ ''] '' @ description violation
     @ (case file_path violation of
          None \<Rightarrow> []
        | Some fp \<Rightarrow>
            (if fp = [] then []
             else '' ('' @ fp
                  @ (case line_number violation of
                       None \<Rightarrow> []
                     | Some n \<Rightarrow> (if n = 0 then [] else '':'' @ str_nat n))
                  @ '')''))
     @ (case suggestion violation of
          None \<Rightarrow> []
        | Some sg \<Rightarrow>
            (if sg = [] then []
             else NL @ ''  '' @ [CHR 0xC3, CHR 0xB0, CHR 0xC5, CHR 0xB8, CHR 0xE2, CHR 0x80, CHR 0x99, CHR 0xC2, CHR 0xA1] @ '' '' @ sg))
     @ NL"

definition render_rule :: "string \<times> RuleTestResult \<Rightarrow> string" where
  "render_rule item =
     (let result = snd item;
          status = (if passed result then [CHR 0xC3, CHR 0xA2, CHR 0xC5, CHR 0x93, CHR 0xE2, CHR 0x80, CHR 0xA6] @ '' PASS'' else [CHR 0xC3, CHR 0xA2, CHR 0xC5, CHR 0x92] @ '' FAIL'')
      in ''### '' @ fst item @ '': '' @ status @ NL
         @ details result @ NL @ NL
         @ (if violations result \<noteq> [] then
              ''**Violations:**'' @ NL
              @ concat (map render_violation (violations result))
              @ NL
            else []))"

definition generate_report :: "results \<Rightarrow> error + string" where
  "generate_report rs =
     (let total_rules = length rs;
          n_passed = passed_rules rs;
          n_total = total_violations rs;
          n_must = must_violations rs
      in if total_rules = 0 then Inl ZeroDivisionError
         else Inr
           (NL @ ''# Universal Rules Compliance Report'' @ NL
            @ NL
            @ ''## Summary'' @ NL
            @ ''- **Total Rules Tested**: '' @ str_nat total_rules @ NL
            @ ''- **Rules Passed**: '' @ str_nat n_passed @ NL
            @ ''- **Rules Failed**: '' @ str_nat (total_rules - n_passed) @ NL
            @ ''- **Total Violations**: '' @ str_nat n_total @ NL
            @ ''- **MUST Violations**: '' @ str_nat n_must @ NL
            @ ''- **Compliance Score**: '' @ format_1f (compliance_score rs)
            @ ''%'' @ NL
            @ NL
            @ ''## Detailed Results'' @ NL
            @ NL
            @ concat (map render_rule (sort_key fst rs))
            @ NL @ ''## Recommendations'' @ NL
            @ (if n_must > 0 then
                 [CHR 0xC3, CHR 0xB0, CHR 0xC5, CHR 0xB8, CHR 0xC5, CHR 0xA1, CHR 0xC2, CHR 0xA8] @ '' **Critical**: Fix '' @ str_nat n_must
                 @ '' MUST violations immediately.'' @ NL
               else [])
            @ (if n_total > n_must then
                 [CHR 0xC3, CHR 0xA2, CHR 0xC5, CHR 0xA1, CHR 0xC2, CHR 0xA0, CHR 0xC3, CHR 0xAF, CHR 0xC2, CHR 0xB8] @ '' **Important**: Address '' @ str_nat (n_total - n_must)
                 @ '' SHOULD violations for best practices.'' @ NL
               else [])
            @ (if n_total = 0 then
                 [CHR 0xC3, CHR 0xB0, CHR 0xC5, CHR 0xB8, CHR 0xC5, CHR 0xBD, CHR 0xE2, CHR 0x80, CHR 0xB0] @ '' **Excellent**: All rules are compliant!'' @ NL
               else [])))"

subsection \<open>The entry point\<close>

text \<open>
  \<^verbatim>\<open>main\<close> reads \<^verbatim>\<open>sys.argv\<close>. Its environment gives the file system seen from each
  project root and says whether the output file can be opened for writing. The result is
  what the process printed, what it wrote, and the status passed to \<^verbatim>\<open>sys.exit\<close>; an
  uncaught exception is \<open>Inl\<close>.
\<close>

record outcome =
  stdout :: string
  written :: "(string \<times> string) option"
  exit_code :: int

definition root_arg :: "string list \<Rightarrow> string" where
  "root_arg argv = (if length argv > 1 then argv ! 1 else ''.'')"

definition output_file :: "string list \<Rightarrow> string option" where
  "output_file argv = (if length argv > 2 then Some (argv ! 2) else None)"

definition main :: "(string \<Rightarrow> os) \<Rightarrow> (string \<Rightarrow> bool) \<Rightarrow> string list \<Rightarrow> error + outcome" where
  "main project_at can_write argv =
     (case run_all_tests (project_at (root_arg argv)) of
        Inl e \<Rightarrow> Inl e
      | Inr rs \<Rightarrow>
          (case generate_report rs of
             Inl e \<Rightarrow> Inl e
           | Inr report \<Rightarrow>
               (let code = (if must_violations rs > 0 then 1 else 0)
                in case output_file argv of
                     None \<Rightarrow>
                       Inr \<lparr>stdout = report @ NL, written = None, exit_code = code\<rparr>
                   | Some name \<Rightarrow>
                       (if name = [] then
                          Inr \<lparr>stdout = report @ NL, written = None, exit_code = code\<rparr>
                        else if can_write name then
                          Inr \<lparr>stdout = ''Compliance report written to '' @ name @ NL,
                               written = Some (name, report), exit_code = code\<rparr>
                        else Inl (WriteError name)))))"

text \<open>
  The status of the process: the argument of \<^verbatim>\<open>sys.exit\<close>, or 1 when an uncaught
  exception ends the interpreter.
\<close>

definition exit_status :: "error + outcome \<Rightarrow> int" where
  "exit_status r = (case r of Inl e \<Rightarrow> 1 | Inr out \<Rightarrow> exit_code out)"

subsection \<open>The score as the specification words it\<close>

text \<open>
  The specification divides the number of passed rules by 22. This definition follows
  its words, for comparison with \<open>compliance_score\<close>, which follows the source.
\<close>

definition spec_compliance_score :: "results \<Rightarrow> nat" where
  "spec_compliance_score rs = round_half_even (passed_rules rs * 1000) 22"

subsection \<open>A directive as the specification words it\<close>

text \<open>
  The specification speaks of a Dockerfile that lacks a \<^verbatim>\<open>USER\<close> or a
  \<^verbatim>\<open>HEALTHCHECK\<close> directive, where the source tests for a substring. This definition
  follows the words, for comparison: a Dockerfile has the directive when one of its
  lines, after leading white space, starts with the name of the instruction, in either
  case, followed by white space or the end of the line.
\<close>

definition spec_has_directive :: "string \<Rightarrow> ustring \<Rightarrow> bool" where
  "spec_has_directive name content =
     list_ex
       (\<lambda>line. let words = dropWhile is_space line
              in lower (take (length name) words) = lower (ustr name)
                 \<and> (case drop (length name) words of
                       [] \<Rightarrow> True
                     | c # _ \<Rightarrow> is_space c))
       (split 0x0A content)"

subsection \<open>Example projects\<close>

text \<open>The string of a path relative to the root \<^verbatim>\<open>.\<close>, as \<^verbatim>\<open>str\<close> prints it.\<close>

definition path_name :: "path \<Rightarrow> string" where
  "path_name p = (if p = [] then ''.'' else join ''/'' p)"

text \<open>An empty project directory: the root exists and holds nothing.\<close>

definition empty_fs :: os where
  "empty_fs =
     \<lparr>exists = (\<lambda>p. p = []), is_dir = (\<lambda>p. p = []),
      rglob = (\<lambda>d pattern. []), glob = (\<lambda>d pattern. []),
      read_text = (\<lambda>p. None), path_str = path_name\<rparr>"

text \<open>
  A project whose only entry is \<^verbatim>\<open>Dockerfile\<close>, which cannot be read as text (no
  permission, or bytes that do not decode).
\<close>

definition unreadable_dockerfile_fs :: os where
  "unreadable_dockerfile_fs =
     \<lparr>exists = (\<lambda>p. p = [] \<or> p = [''Dockerfile'']), is_dir = (\<lambda>p. p = []),
      rglob = (\<lambda>d pattern. []), glob = (\<lambda>d pattern. []),
      read_text = (\<lambda>p. None), path_str = path_name\<rparr>"

text \<open>
  A project whose workflow file \<^verbatim>\<open>.github/workflows/ci.yml\<close> cannot be read as text.
\<close>

definition unreadable_workflow_fs :: os where
  "unreadable_workflow_fs =
     \<lparr>exists = (\<lambda>p. p = [] \<or> p = [''.github''] \<or> p = [''.github'', ''workflows'']
                      \<or> p = [''.github'', ''workflows'', ''ci.yml'']),
      is_dir = (\<lambda>p. p = [] \<or> p = [''.github''] \<or> p = [''.github'', ''workflows'']),
      rglob = (\<lambda>d pattern. if d = [] \<and> pattern = ''**/*.yml''
                             then [[''.github'', ''workflows'', ''ci.yml'']] else []),
      glob = (\<lambda>d pattern. if d = [''.github'', ''workflows''] \<and> pattern = ''*.yml''
                            then [[''.github'', ''workflows'', ''ci.yml'']] else []),
      read_text = (\<lambda>p. None), path_str = path_name\<rparr>"

text \<open>
  A project with \<^verbatim>\<open>Dockerfile\<close> and \<^verbatim>\<open>docker/Dockerfile\<close>: the first has neither
  directive, the second has both.
\<close>

definition two_dockerfiles_fs :: os where
  "two_dockerfiles_fs =
     \<lparr>exists = (\<lambda>p. p = [] \<or> p = [''Dockerfile''] \<or> p = [''docker'']
                      \<or> p = [''docker'', ''Dockerfile'']),
      is_dir = (\<lambda>p. p = [] \<or> p = [''docker'']),
      rglob = (\<lambda>d pattern. []), glob = (\<lambda>d pattern. []),
      read_text = (\<lambda>p. if p = [''Dockerfile''] then Some (ustr ''FROM python:3.12'')
                         else if p = [''docker'', ''Dockerfile'']
                         then Some (ustr (''FROM python:3.12'' @ NL @ ''USER app'' @ NL
                                          @ ''HEALTHCHECK CMD true''))
                         else None),
      path_str = path_name\<rparr>"

text \<open>
  A project with the two files \<^verbatim>\<open>a.py\<close> and \<^verbatim>\<open>b.py\<close>, each holding a password
  assignment in its second line; the argument is the order in which the directory
  enumeration yields the \<^verbatim>\<open>*.py\<close> files.
\<close>

definition secret_line :: string where
  "secret_line = ''password = '' @ [CHR 0x22] @ ''hunter2'' @ [CHR 0x22]"

definition two_secrets_fs :: "path list \<Rightarrow> os" where
  "two_secrets_fs listing =
     \<lparr>exists = (\<lambda>p. p = [] \<or> p = [''a.py''] \<or> p = [''b.py'']),
      is_dir = (\<lambda>p. p = []),
      rglob = (\<lambda>d pattern. if d = [] \<and> pattern = ''*.py'' then listing else []),
      glob = (\<lambda>d pattern. []),
      read_text = (\<lambda>p. if p = [''a.py''] \<or> p = [''b.py'']
                         then Some (ustr (''import os'' @ NL @ secret_line @ NL))
                         else None),
      path_str = path_name\<rparr>"

text \<open>
  A project that gives every MUST check its evidence: an OpenAPI file naming a health
  endpoint, a performance budget, the ADR directory, a Dockerfile with both directives, a
  source file with a versioned path, a test directory, a test configuration and a
  pipeline file. It has no authentication keyword and no logging configuration.
\<close>

definition compliant_fs :: os where
  "compliant_fs =
     \<lparr>exists = (\<lambda>p. p \<in> set [[], [''openapi.yaml''], [''perf-budget.yaml''], [''docs''],
                               [''docs'', ''adr''], [''Dockerfile''], [''tests''],
                               [''pytest.ini''], [''.gitlab-ci.yml''], [''app.py'']]),
      is_dir = (\<lambda>p. p \<in> set [[], [''docs''], [''docs'', ''adr''], [''tests'']]),
      rglob = (\<lambda>d pattern.
                 if d \<noteq> [] then []
                 else if pattern = ''openapi.yaml'' then [[''openapi.yaml'']]
                 else if pattern = ''**/*.yaml'' then [[''openapi.yaml''], [''perf-budget.yaml'']]
                 else if pattern = ''**/*.yml'' then [[''.gitlab-ci.yml'']]
                 else if pattern = ''*.py'' \<or> pattern = ''**/*.py'' then [[''app.py'']]
                 else []),
      glob = (\<lambda>d pattern. []),
      read_text = (\<lambda>p. if p = [''openapi.yaml''] then Some (ustr ''paths: /health'')
                         else if p = [''perf-budget.yaml''] then Some (ustr ''latency_ms: 200'')
                         else if p = [''Dockerfile'']
                         then Some (ustr (''FROM python:3.12'' @ NL @ ''USER app'' @ NL
                                          @ ''HEALTHCHECK CMD true''))
                         else if p = [''pytest.ini''] then Some (ustr ''[pytest]'')
                         else if p = [''.gitlab-ci.yml''] then Some (ustr ''stages: [test]'')
                         else if p = [''app.py''] then Some (ustr ''ROUTE = /v1/users'')
                         else None),
      path_str = path_name\<rparr>"

text \<open>
  A project whose Dockerfile sets an environment variable named \<^verbatim>\<open>POSTGRES_USER\<close> and
  mentions \<^verbatim>\<open>HEALTHCHECK\<close> in a comment, and has neither directive.
\<close>

definition env_user_dockerfile :: ustring where
  "env_user_dockerfile =
     ustr (''FROM postgres:16'' @ NL @ ''ENV POSTGRES_USER postgres'' @ NL
           @ ''# TODO: add a HEALTHCHECK'' @ NL)"

definition env_user_fs :: os where
  "env_user_fs =
     \<lparr>exists = (\<lambda>p. p = [] \<or> p = [''Dockerfile'']), is_dir = (\<lambda>p. p = []),
      rglob = (\<lambda>d pattern. []), glob = (\<lambda>d pattern. []),
      read_text = (\<lambda>p. if p = [''Dockerfile''] then Some env_user_dockerfile else None),
      path_str = path_name\<rparr>"

text \<open>
  A project with one source file, \<^verbatim>\<open>app.py\<close>, whose only line assigns a password with
  a long s (\<^verbatim>\<open>U+017F\<close>) in the name, a no-break space (\<^verbatim>\<open>U+00A0\<close>) before the equals
  sign and an em space (\<^verbatim>\<open>U+2003\<close>) after it.
\<close>

definition unicode_secret_line :: ustring where
  "unicode_secret_line =
     ustr ''PA'' @ [0x17F] @ ustr ''SWORD'' @ [0xA0] @ ustr ''='' @ [0x2003]
     @ [0x27] @ ustr ''hunter2'' @ [0x27]"

definition unicode_secret_fs :: os where
  "unicode_secret_fs =
     \<lparr>exists = (\<lambda>p. p = [] \<or> p = [''app.py'']), is_dir = (\<lambda>p. p = []),
      rglob = (\<lambda>d pattern. if d = [] \<and> pattern = ''*.py'' then [[''app.py'']] else []),
      glob = (\<lambda>d pattern. []),
      read_text = (\<lambda>p. if p = [''app.py''] then Some unicode_secret_line else None),
      path_str = path_name\<rparr>"

section \<open>Properties\<close>

subsection \<open>The shape of the results\<close>

lemma test_01a_shape:
  "\<exists>r. test_01a_design_principles fs = [(''01A'', r)] \<and> result_rule_id r = ''01A''"
  by (simp add: test_01a_design_principles_def Let_def)

lemma test_01b_shape:
  "\<exists>r. test_01b_runtime_operations fs = [(''01B'', r)] \<and> result_rule_id r = ''01B''"
  by (simp add: test_01b_runtime_operations_def Let_def)

lemma test_03a_shape:
  "\<exists>r. test_03a_authentication fs = [(''03A'', r)] \<and> result_rule_id r = ''03A''"
  by (simp add: test_03a_authentication_def Let_def)

lemma test_05b_shape:
  "\<exists>r. test_05b_secrets_management fs = [(''05B'', r)] \<and> result_rule_id r = ''05B''"
  by (simp add: test_05b_secrets_management_def Let_def)

lemma test_06a_shape:
  "\<exists>r. test_06a_api_design fs = [(''06A'', r)] \<and> result_rule_id r = ''06A''"
  by (simp add: test_06a_api_design_def Let_def)

lemma test_07a_shape:
  "\<exists>r. test_07a_testing_strategy fs = [(''07A'', r)] \<and> result_rule_id r = ''07A''"
  by (simp add: test_07a_testing_strategy_def Let_def)

lemma test_08b_shape:
  "\<exists>r. test_08b_logging_standards fs = [(''08B'', r)] \<and> result_rule_id r = ''08B''"
  by (simp add: test_08b_logging_standards_def Let_def)

lemma test_02a_shape:
  "test_02a_container_design fs = Inr d \<Longrightarrow> \<exists>r. d = [(''02A'', r)] \<and> result_rule_id r = ''02A''"
  by (auto simp add: test_02a_container_design_def Let_def split: sum.splits if_splits)

lemma test_09a_shape:
  "test_09a_cicd_pipelines fs = Inr d \<Longrightarrow> \<exists>r. d = [(''09A'', r)] \<and> result_rule_id r = ''09A''"
  by (auto simp add: test_09a_cicd_pipelines_def Let_def split: sum.splits if_splits)

lemmas placeholder_defs =
  test_01c_governance_def test_02b_network_topology_def test_02c_service_metadata_def
  test_03b_authorization_def test_03c_security_encryption_def test_04a_database_design_def
  test_04b_database_operations_def test_05a_environment_config_def
  test_06b_api_documentation_def test_06c_api_versioning_def
  test_07b_test_implementation_def test_07c_test_automation_def
  test_08a_error_handling_def test_08c_monitoring_def

lemma run_all_tests_Inr:
  assumes "run_all_tests fs = Inr rs"
  shows "\<exists>d2 d9. test_02a_container_design fs = Inr d2 \<and> test_09a_cicd_pipelines fs = Inr d9
           \<and> rs = test_01a_design_principles fs @ test_01b_runtime_operations fs
                 @ test_01c_governance @ d2 @ test_02b_network_topology
                 @ test_02c_service_metadata @ test_03a_authentication fs
                 @ test_03b_authorization @ test_03c_security_encryption
                 @ test_04a_database_design @ test_04b_database_operations
                 @ test_05a_environment_config @ test_05b_secrets_management fs
                 @ test_06a_api_design fs @ test_06b_api_documentation
                 @ test_06c_api_versioning @ test_07a_testing_strategy fs
                 @ test_07b_test_implementation @ test_07c_test_automation
                 @ test_08a_error_handling @ test_08b_logging_standards fs
                 @ test_08c_monitoring @ d9"
proof -
  obtain r1 where r1: "test_01a_design_principles fs = [(''01A'', r1)]"
    using test_01a_shape by blast
  obtain r2 where r2: "test_01b_runtime_operations fs = [(''01B'', r2)]"
    using test_01b_shape by blast
  obtain r3 where r3: "test_03a_authentication fs = [(''03A'', r3)]"
    using test_03a_shape by blast
  obtain r4 where r4: "test_05b_secrets_management fs = [(''05B'', r4)]"
    using test_05b_shape by blast
  obtain r5 where r5: "test_06a_api_design fs = [(''06A'', r5)]"
    using test_06a_shape by blast
  obtain r6 where r6: "test_07a_testing_strategy fs = [(''07A'', r6)]"
    using test_07a_shape by blast
  obtain r7 where r7: "test_08b_logging_standards fs = [(''08B'', r7)]"
    using test_08b_shape by blast
  show ?thesis
  proof (cases "test_02a_container_design fs")
    case (Inl e)
    with assms show ?thesis by (simp add: run_all_tests_def r1 r2 dict_update_def placeholder_defs)
  next
    case (Inr d2)
    then obtain q2 where q2: "d2 = [(''02A'', q2)]" using test_02a_shape by blast
    show ?thesis
    proof (cases "test_09a_cicd_pipelines fs")
      case (Inl e)
      with assms Inr q2 show ?thesis
        by (simp add: run_all_tests_def r1 r2 r3 r4 r5 r6 r7 dict_update_def placeholder_defs)
    next
      case d9: (Inr d9)
      then obtain q9 where q9: "d9 = [(''09A'', q9)]" using test_09a_shape by blast
      from assms Inr q2 d9 q9 show ?thesis
        by (simp add: run_all_tests_def r1 r2 r3 r4 r5 r6 r7 dict_update_def placeholder_defs)
    qed
  qed
qed

lemma must_count_Nil [simp]: "must_count [] = 0"
  by (simp add: must_count_def)

lemma must_count_append [simp]: "must_count (xs @ ys) = must_count xs + must_count ys"
  by (simp add: must_count_def)

lemma must_count_zero_iff: "must_count vs = 0 \<longleftrightarrow> (\<forall>v\<in>set vs. severity v \<noteq> MUST)"
  by (simp add: must_count_def filter_empty_conv)

lemma must_violations_append [simp]:
  "must_violations (xs @ ys) = must_violations xs + must_violations ys"
  by (simp add: must_violations_def)

lemma must_violations_zero_iff:
  "must_violations rs = 0 \<longleftrightarrow> (\<forall>r\<in>snd ` set rs. \<forall>v\<in>set (violations r). severity v \<noteq> MUST)"
  by (induction rs) (auto simp add: must_violations_def must_count_zero_iff)

lemma run_all_tests_keys:
  assumes "run_all_tests fs = Inr rs"
  shows "map fst rs =
           [''01A'', ''01B'', ''01C'', ''02A'', ''02B'', ''02C'', ''03A'', ''03B'', ''03C'',
            ''04A'', ''04B'', ''05A'', ''05B'', ''06A'', ''06B'', ''06C'', ''07A'', ''07B'',
            ''07C'', ''08A'', ''08B'', ''08C'', ''09A'']"
    and "list_all (\<lambda>(k, r). result_rule_id r = k) rs"
proof -
  obtain r1 where r1: "test_01a_design_principles fs = [(''01A'', r1)]" "result_rule_id r1 = ''01A''"
    using test_01a_shape by blast
  obtain r2 where r2: "test_01b_runtime_operations fs = [(''01B'', r2)]" "result_rule_id r2 = ''01B''"
    using test_01b_shape by blast
  obtain r3 where r3: "test_03a_authentication fs = [(''03A'', r3)]" "result_rule_id r3 = ''03A''"
    using test_03a_shape by blast
  obtain r4 where r4: "test_05b_secrets_management fs = [(''05B'', r4)]" "result_rule_id r4 = ''05B''"
    using test_05b_shape by blast
  obtain r5 where r5: "test_06a_api_design fs = [(''06A'', r5)]" "result_rule_id r5 = ''06A''"
    using test_06a_shape by blast
  obtain r6 where r6: "test_07a_testing_strategy fs = [(''07A'', r6)]" "result_rule_id r6 = ''07A''"
    using test_07a_shape by blast
  obtain r7 where r7: "test_08b_logging_standards fs = [(''08B'', r7)]" "result_rule_id r7 = ''08B''"
    using test_08b_shape by blast
  obtain d2 d9 where d: "test_02a_container_design fs = Inr d2" "test_09a_cicd_pipelines fs = Inr d9"
    and rs: "rs = test_01a_design_principles fs @ test_01b_runtime_operations fs
                 @ test_01c_governance @ d2 @ test_02b_network_topology
                 @ test_02c_service_metadata @ test_03a_authentication fs
                 @ test_03b_authorization @ test_03c_security_encryption
                 @ test_04a_database_design @ test_04b_database_operations
                 @ test_05a_environment_config @ test_05b_secrets_management fs
                 @ test_06a_api_design fs @ test_06b_api_documentation
                 @ test_06c_api_versioning @ test_07a_testing_strategy fs
                 @ test_07b_test_implementation @ test_07c_test_automation
                 @ test_08a_error_handling @ test_08b_logging_standards fs
                 @ test_08c_monitoring @ d9"
    using run_all_tests_Inr [OF assms] by blast
  obtain q2 where q2: "d2 = [(''02A'', q2)]" "result_rule_id q2 = ''02A''"
    using test_02a_shape [OF d(1)] by blast
  obtain q9 where q9: "d9 = [(''09A'', q9)]" "result_rule_id q9 = ''09A''"
    using test_09a_shape [OF d(2)] by blast
  show "map fst rs =
           [''01A'', ''01B'', ''01C'', ''02A'', ''02B'', ''02C'', ''03A'', ''03B'', ''03C'',
            ''04A'', ''04B'', ''05A'', ''05B'', ''06A'', ''06B'', ''06C'', ''07A'', ''07B'',
            ''07C'', ''08A'', ''08B'', ''08C'', ''09A'']"
    by (simp add: rs r1 r2 r3 r4 r5 r6 r7 q2 q9 placeholder_defs)
  show "list_all (\<lambda>(k, r). result_rule_id r = k) rs"
    by (simp add: rs r1 r2 r3 r4 r5 r6 r7 q2 q9 placeholder_defs)
qed

lemma run_all_tests_length:
  assumes "run_all_tests fs = Inr rs"
  shows "length rs = 23"
proof -
  have "length (map fst rs) = 23"
    by (simp only: run_all_tests_keys(1) [OF assms]) simp
  then show ?thesis by simp
qed

subsection \<open>Evaluating the example projects\<close>

lemmas eval_defs =
  joinpath_def project_root_def path_name_def must_count_def dockerfile_paths_def
  str_nat.simps digit_char_def Let_def ustr_def

lemmas check_defs =
  test_02a_container_design_def test_09a_cicd_pipelines_def
  test_03a_authentication_def test_08b_logging_standards_def
  test_01a_design_principles_def test_01b_runtime_operations_def
  test_05b_secrets_management_def test_06a_api_design_def test_07a_testing_strategy_def
  code_files_def

lemmas regex_defs =
  secret_patterns_def assignment_tail_def literal_def is_digit_def digit_zeros_def
  is_space_def whitespace_def is_quote_def cased_literal_def ignorecase_variants_def
  in_ranges_def simple_lower_def lower_def NL_def

lemma run_empty:
  "run_all_tests empty_fs = Inr (projr (run_all_tests empty_fs))"
  by (simp add: run_all_tests_def empty_fs_def test_02a_container_design_def
      test_09a_cicd_pipelines_def eval_defs)

lemma run_compliant:
  "run_all_tests compliant_fs = Inr (projr (run_all_tests compliant_fs))"
  by (simp add: run_all_tests_def compliant_fs_def test_02a_container_design_def
      test_09a_cicd_pipelines_def eval_defs)

lemma must_violations_compliant: "must_violations (projr (run_all_tests compliant_fs)) = 0"
  by code_simp

lemma total_violations_compliant: "total_violations (projr (run_all_tests compliant_fs)) = 2"
  by code_simp

lemma must_violations_empty: "must_violations (projr (run_all_tests empty_fs)) = 9"
  by code_simp

lemma generate_report_returns:
  "rs \<noteq> [] \<Longrightarrow> \<exists>report. generate_report rs = Inr report"
  by (simp add: generate_report_def Let_def)

lemma main_returns:
  assumes run: "run_all_tests (project_at (root_arg argv)) = Inr rs"
    and writable: "\<forall>name. output_file argv = Some name \<longrightarrow> name \<noteq> [] \<longrightarrow> can_write name"
  shows "\<exists>out. main project_at can_write argv = Inr out
           \<and> exit_code out = (if must_violations rs > 0 then 1 else 0)"
proof -
  have "rs \<noteq> []"
    using run_all_tests_length [OF run] by auto
  then obtain report where report: "generate_report rs = Inr report"
    using generate_report_returns by blast
  show ?thesis
    using writable by (cases "output_file argv") (simp_all add: main_def run report Let_def)
qed

subsection \<open>Rule 03A\<close>

text \<open>
  C10. For every project, the result of rule 03A has \<open>passed = True\<close>: the only
  violation the authentication check can emit is \<^verbatim>\<open>03A-001\<close>, of severity SHOULD, and
  \<open>passed\<close> counts the MUST violations only. The same holds for the entry \<^verbatim>\<open>03A\<close> of
  the results of every run that returns.
\<close>

theorem C10_authentication_always_passes:
  "(\<exists>r. test_03a_authentication fs = [(''03A'', r)] \<and> passed r
        \<and> (\<forall>v\<in>set (violations r). rule_id v = ''03A-001'' \<and> severity v = SHOULD))
   \<and> (\<forall>rs. run_all_tests fs = Inr rs \<longrightarrow> (\<exists>r. map_of rs ''03A'' = Some r \<and> passed r))"
proof
  show a: "\<exists>r. test_03a_authentication fs = [(''03A'', r)] \<and> passed r
        \<and> (\<forall>v\<in>set (violations r). rule_id v = ''03A-001'' \<and> severity v = SHOULD)"
    by (simp add: test_03a_authentication_def Let_def must_count_def)
  show "\<forall>rs. run_all_tests fs = Inr rs \<longrightarrow> (\<exists>r. map_of rs ''03A'' = Some r \<and> passed r)"
  proof (intro allI impI)
    fix rs assume run: "run_all_tests fs = Inr rs"
    obtain r1 where r1: "test_01a_design_principles fs = [(''01A'', r1)]"
      using test_01a_shape by blast
    obtain r2 where r2: "test_01b_runtime_operations fs = [(''01B'', r2)]"
      using test_01b_shape by blast
    obtain r3 where r3: "test_03a_authentication fs = [(''03A'', r3)]" "passed r3"
      using a by blast
    obtain d2 d9 where d: "test_02a_container_design fs = Inr d2"
      and rs: "rs = test_01a_design_principles fs @ test_01b_runtime_operations fs
                 @ test_01c_governance @ d2 @ test_02b_network_topology
                 @ test_02c_service_metadata @ test_03a_authentication fs
                 @ test_03b_authorization @ test_03c_security_encryption
                 @ test_04a_database_design @ test_04b_database_operations
                 @ test_05a_environment_config @ test_05b_secrets_management fs
                 @ test_06a_api_design fs @ test_06b_api_documentation
                 @ test_06c_api_versioning @ test_07a_testing_strategy fs
                 @ test_07b_test_implementation @ test_07c_test_automation
                 @ test_08a_error_handling @ test_08b_logging_standards fs
                 @ test_08c_monitoring @ d9"
      using run_all_tests_Inr [OF run] by blast
    obtain q2 where q2: "d2 = [(''02A'', q2)]"
      using test_02a_shape [OF d] by blast
    show "\<exists>r. map_of rs ''03A'' = Some r \<and> passed r"
      by (simp add: rs r1 r2 r3 q2 placeholder_defs)
  qed
qed

text \<open>In the empty project the check does emit its violation, and still passes.\<close>

theorem C10_authentication_always_passes_witness:
  "passed (snd (hd (test_03a_authentication empty_fs)))
   \<and> map severity (violations (snd (hd (test_03a_authentication empty_fs)))) = [SHOULD]
   \<and> map_option passed (map_of (projr (run_all_tests empty_fs)) ''03A'') = Some True"
proof -
  have run: "run_all_tests empty_fs = Inr (projr (run_all_tests empty_fs))"
    by (simp add: run_all_tests_def empty_fs_def test_02a_container_design_def
        test_09a_cicd_pipelines_def dockerfile_paths_def joinpath_def project_root_def Let_def)
  have "map severity (violations (snd (hd (test_03a_authentication empty_fs)))) = [SHOULD]"
    by (simp add: test_03a_authentication_def empty_fs_def Let_def)
  with C10_authentication_always_passes [of empty_fs] run show ?thesis
    by auto
qed

subsection \<open>The pass policy of each check\<close>

text \<open>
  C4. The checks 02A (container design), 09A (CI/CD pipeline), 03A (authentication) and
  08B (logging) set \<open>passed\<close> to "the number of MUST violations is zero"; the other
  checks that inspect the project (01A, 01B, 05B, 06A, 07A) set it to "the number of
  violations is zero". For 02A and 09A this is the result of a check that returns.
\<close>

theorem C4_pass_policy:
  "(\<forall>d k r. test_02a_container_design fs = Inr d \<longrightarrow> (k, r) \<in> set d
       \<longrightarrow> passed r = (must_count (violations r) = 0))
   \<and> (\<forall>d k r. test_09a_cicd_pipelines fs = Inr d \<longrightarrow> (k, r) \<in> set d
       \<longrightarrow> passed r = (must_count (violations r) = 0))
   \<and> (\<forall>k r. (k, r) \<in> set (test_03a_authentication fs)
       \<longrightarrow> passed r = (must_count (violations r) = 0))
   \<and> (\<forall>k r. (k, r) \<in> set (test_08b_logging_standards fs)
       \<longrightarrow> passed r = (must_count (violations r) = 0))
   \<and> (\<forall>k r. (k, r) \<in> set (test_01a_design_principles fs)
       \<longrightarrow> passed r = (length (violations r) = 0))
   \<and> (\<forall>k r. (k, r) \<in> set (test_01b_runtime_operations fs)
       \<longrightarrow> passed r = (length (violations r) = 0))
   \<and> (\<forall>k r. (k, r) \<in> set (test_05b_secrets_management fs)
       \<longrightarrow> passed r = (length (violations r) = 0))
   \<and> (\<forall>k r. (k, r) \<in> set (test_06a_api_design fs)
       \<longrightarrow> passed r = (length (violations r) = 0))
   \<and> (\<forall>k r. (k, r) \<in> set (test_07a_testing_strategy fs)
       \<longrightarrow> passed r = (length (violations r) = 0))"
proof (intro conjI)
  show "\<forall>d k r. test_02a_container_design fs = Inr d \<longrightarrow> (k, r) \<in> set d
       \<longrightarrow> passed r = (must_count (violations r) = 0)"
    by (auto simp add: test_02a_container_design_def Let_def split: sum.splits if_splits)
  show "\<forall>d k r. test_09a_cicd_pipelines fs = Inr d \<longrightarrow> (k, r) \<in> set d
       \<longrightarrow> passed r = (must_count (violations r) = 0)"
    by (auto simp add: test_09a_cicd_pipelines_def Let_def split: sum.splits if_splits)
  show "\<forall>k r. (k, r) \<in> set (test_03a_authentication fs)
       \<longrightarrow> passed r = (must_count (violations r) = 0)"
    by (simp add: test_03a_authentication_def Let_def)
  show "\<forall>k r. (k, r) \<in> set (test_08b_logging_standards fs)
       \<longrightarrow> passed r = (must_count (violations r) = 0)"
    by (simp add: test_08b_logging_standards_def Let_def)
  show "\<forall>k r. (k, r) \<in> set (test_01a_design_principles fs)
       \<longrightarrow> passed r = (length (violations r) = 0)"
    by (simp add: test_01a_design_principles_def Let_def)
  show "\<forall>k r. (k, r) \<in> set (test_01b_runtime_operations fs)
       \<longrightarrow> passed r = (length (violations r) = 0)"
    by (simp add: test_01b_runtime_operations_def Let_def)
  show "\<forall>k r. (k, r) \<in> set (test_05b_secrets_management fs)
       \<longrightarrow> passed r = (length (violations r) = 0)"
    by (simp add: test_05b_secrets_management_def Let_def)
  show "\<forall>k r. (k, r) \<in> set (test_06a_api_design fs)
       \<longrightarrow> passed r = (length (violations r) = 0)"
    by (simp add: test_06a_api_design_def Let_def)
  show "\<forall>k r. (k, r) \<in> set (test_07a_testing_strategy fs)
       \<longrightarrow> passed r = (length (violations r) = 0)"
    by (simp add: test_07a_testing_strategy_def Let_def)
qed

text \<open>
  In the project with two Dockerfiles, 02A fails with one MUST and one SHOULD violation,
  03A and 08B pass with one SHOULD violation each, and the other checks fail exactly when
  they hold a violation.
\<close>

theorem C4_pass_policy_witness:
  "(\<exists>d r. test_02a_container_design two_dockerfiles_fs = Inr d \<and> (''02A'', r) \<in> set d
        \<and> \<not> passed r \<and> must_count (violations r) = 1 \<and> length (violations r) = 2)
   \<and> (\<exists>d r. test_09a_cicd_pipelines two_dockerfiles_fs = Inr d \<and> (''09A'', r) \<in> set d
        \<and> \<not> passed r \<and> must_count (violations r) = 1)
   \<and> (\<exists>r. (''03A'', r) \<in> set (test_03a_authentication two_dockerfiles_fs)
        \<and> passed r \<and> must_count (violations r) = 0 \<and> length (violations r) = 1)
   \<and> (\<exists>r. (''08B'', r) \<in> set (test_08b_logging_standards two_dockerfiles_fs)
        \<and> passed r \<and> must_count (violations r) = 0 \<and> length (violations r) = 1)
   \<and> (\<exists>r. (''01A'', r) \<in> set (test_01a_design_principles two_dockerfiles_fs)
        \<and> \<not> passed r \<and> length (violations r) = 3)
   \<and> (\<exists>r. (''01B'', r) \<in> set (test_01b_runtime_operations two_dockerfiles_fs)
        \<and> \<not> passed r \<and> length (violations r) = 1)
   \<and> (\<exists>r. (''05B'', r) \<in> set (test_05b_secrets_management two_dockerfiles_fs)
        \<and> passed r \<and> length (violations r) = 0)
   \<and> (\<exists>r. (''06A'', r) \<in> set (test_06a_api_design two_dockerfiles_fs)
        \<and> \<not> passed r \<and> length (violations r) = 1)
   \<and> (\<exists>r. (''07A'', r) \<in> set (test_07a_testing_strategy two_dockerfiles_fs)
        \<and> \<not> passed r \<and> length (violations r) = 2)"
  using C4_pass_policy [of two_dockerfiles_fs]
  by (simp add: test_02a_container_design_def test_09a_cicd_pipelines_def
      test_03a_authentication_def test_08b_logging_standards_def
      test_01a_design_principles_def test_01b_runtime_operations_def
      test_05b_secrets_management_def test_06a_api_design_def test_07a_testing_strategy_def
      code_files_def two_dockerfiles_fs_def eval_defs)

subsection \<open>The rule identifiers of a run\<close>

text \<open>
  C2 as stated, with twenty-two entries, fails: the run on the empty project returns
  twenty-three entries.
\<close>

theorem C2_twenty_two_entries_counterexample:
  "map_sum id length (run_all_tests empty_fs) = Inr 23
   \<and> map_sum id length (run_all_tests empty_fs) \<noteq> Inr 22"
proof -
  have "length (projr (run_all_tests empty_fs)) = 23"
    using run_empty by (rule run_all_tests_length)
  then have "map_sum id length (run_all_tests empty_fs) = Inr 23"
    by (subst run_empty) simp
  then show ?thesis by simp
qed

text \<open>
  C2, amended. The results of every run that returns have twenty-three entries, keyed in
  the fixed order 01A, 01B, 01C, 02A, 02B, 02C, 03A, 03B, 03C, 04A, 04B, 05A, 05B, 06A,
  06B, 06C, 07A, 07B, 07C, 08A, 08B, 08C, 09A; the keys are distinct, and every entry
  holds the result whose \<open>rule_id\<close> is its key.
\<close>

theorem C2_one_entry_per_rule:
  assumes "run_all_tests fs = Inr rs"
  shows "map fst rs =
           [''01A'', ''01B'', ''01C'', ''02A'', ''02B'', ''02C'', ''03A'', ''03B'', ''03C'',
            ''04A'', ''04B'', ''05A'', ''05B'', ''06A'', ''06B'', ''06C'', ''07A'', ''07B'',
            ''07C'', ''08A'', ''08B'', ''08C'', ''09A'']
         \<and> length rs = 23 \<and> distinct (map fst rs)
         \<and> list_all (\<lambda>(k, r). result_rule_id r = k) rs"
proof -
  note keys = run_all_tests_keys [OF assms]
  have "distinct (map fst rs)"
    by (simp only: keys(1)) simp
  with keys run_all_tests_length [OF assms] show ?thesis by simp
qed

text \<open>The run on the empty project returns, with these keys.\<close>

theorem C2_one_entry_per_rule_witness:
  "run_all_tests empty_fs = Inr (projr (run_all_tests empty_fs))
   \<and> map fst (projr (run_all_tests empty_fs)) =
           [''01A'', ''01B'', ''01C'', ''02A'', ''02B'', ''02C'', ''03A'', ''03B'', ''03C'',
            ''04A'', ''04B'', ''05A'', ''05B'', ''06A'', ''06B'', ''06C'', ''07A'', ''07B'',
            ''07C'', ''08A'', ''08B'', ''08C'', ''09A'']
   \<and> length (projr (run_all_tests empty_fs)) = 23"
  using C2_one_entry_per_rule [OF run_empty] run_empty by simp

subsection \<open>Reads that fail\<close>

text \<open>
  The scans of 01B, 03A, 05B and 06A read inside a handler: a file whose read raises
  contributes nothing, and the files after it are still scanned.
\<close>

lemma scan_files_skips_unreadable:
  "read_text fs f = None \<Longrightarrow> scan_files fs hit (before @ f # rest) = scan_files fs hit (before @ rest)"
  by (induction before) (simp_all split: option.splits)

lemma scan_code_files_skips_unreadable:
  "read_text fs f = None \<Longrightarrow>
     scan_code_files fs (before @ f # rest) = scan_code_files fs (before @ rest)"
  by (induction before) simp_all

text \<open>
  C3 says that every check recovers from a read that fails. The checks 02A and 09A read
  outside any handler. With a Dockerfile that cannot be read, 02A raises, and the
  exception ends \<^verbatim>\<open>run_all_tests\<close> and \<^verbatim>\<open>main\<close>; with a workflow file that cannot
  be read, 09A does the same.
\<close>

theorem C3_unguarded_read_aborts_run:
  "test_02a_container_design unreadable_dockerfile_fs = Inl (ReadError [''Dockerfile''])
   \<and> run_all_tests unreadable_dockerfile_fs = Inl (ReadError [''Dockerfile''])
   \<and> main (\<lambda>root. unreadable_dockerfile_fs) (\<lambda>name. True) [''rule_test_runner.py'']
       = Inl (ReadError [''Dockerfile''])
   \<and> test_09a_cicd_pipelines unreadable_workflow_fs
       = Inl (ReadError [''.github'', ''workflows'', ''ci.yml''])
   \<and> run_all_tests unreadable_workflow_fs
       = Inl (ReadError [''.github'', ''workflows'', ''ci.yml''])"
proof -
  have a: "test_02a_container_design unreadable_dockerfile_fs = Inl (ReadError [''Dockerfile''])"
    by (simp add: test_02a_container_design_def unreadable_dockerfile_fs_def eval_defs)
  have b: "run_all_tests unreadable_dockerfile_fs = Inl (ReadError [''Dockerfile''])"
    by (simp add: run_all_tests_def a)
  have c: "main (\<lambda>root. unreadable_dockerfile_fs) (\<lambda>name. True) [''rule_test_runner.py'']
             = Inl (ReadError [''Dockerfile''])"
    by (simp add: b main_def)
  have d: "test_09a_cicd_pipelines unreadable_workflow_fs
             = Inl (ReadError [''.github'', ''workflows'', ''ci.yml''])"
    by (simp add: test_09a_cicd_pipelines_def unreadable_workflow_fs_def eval_defs)
  have e: "run_all_tests unreadable_workflow_fs
             = Inl (ReadError [''.github'', ''workflows'', ''ci.yml''])"
    by code_simp
  from a b c d e show ?thesis by simp
qed

subsection \<open>The exit code\<close>

text \<open>
  C1 as stated, for every run, fails: the compliant project has no MUST violation, and
  when the output file named on the command line cannot be opened, \<^verbatim>\<open>open\<close> raises
  outside any handler before \<^verbatim>\<open>sys.exit\<close> is reached, and the process ends with
  status 1.
\<close>

theorem C1_unwritable_output_counterexample:
  "run_all_tests compliant_fs = Inr (projr (run_all_tests compliant_fs))
   \<and> must_violations (projr (run_all_tests compliant_fs)) = 0
   \<and> main (\<lambda>root. compliant_fs) (\<lambda>name. False)
         [''rule_test_runner.py'', ''.'', ''no_such_dir/report.md'']
       = Inl (WriteError ''no_such_dir/report.md'')
   \<and> exit_status (main (\<lambda>root. compliant_fs) (\<lambda>name. False)
                     [''rule_test_runner.py'', ''.'', ''no_such_dir/report.md'']) = 1"
proof -
  let ?rs = "projr (run_all_tests compliant_fs)"
  have "?rs \<noteq> []"
    using run_all_tests_length [OF run_compliant] by auto
  then obtain report where report: "generate_report ?rs = Inr report"
    using generate_report_returns by blast
  have run: "run_all_tests compliant_fs = Inr ?rs"
    by (rule run_compliant)
  have m: "main (\<lambda>root. compliant_fs) (\<lambda>name. False)
             [''rule_test_runner.py'', ''.'', ''no_such_dir/report.md'']
           = Inl (WriteError ''no_such_dir/report.md'')"
    unfolding main_def by (subst run) (simp add: report output_file_def)
  then have "exit_status (main (\<lambda>root. compliant_fs) (\<lambda>name. False)
                     [''rule_test_runner.py'', ''.'', ''no_such_dir/report.md'']) = 1"
    by (simp add: exit_status_def)
  with run must_violations_compliant m show ?thesis
    by (intro conjI)
qed

text \<open>
  C1, amended. For every run the exit status is 0 or 1. It is 0 exactly when the runner
  returns its results, the number of MUST violations over all of them is zero (no
  violation of any result has severity MUST, whatever SHOULD and MAY violations there
  are), and the report is delivered: no output file is named, or the one named can be
  written. Otherwise it is 1: with a MUST violation, or when an exception that nothing
  catches ends the run.
\<close>

theorem C1_exit_status:
  "(exit_status (main project_at can_write argv) = 0
      \<or> exit_status (main project_at can_write argv) = 1)
   \<and> (exit_status (main project_at can_write argv) = 0 \<longleftrightarrow>
        (\<exists>rs. run_all_tests (project_at (root_arg argv)) = Inr rs
              \<and> must_violations rs = 0
              \<and> (\<forall>r\<in>snd ` set rs. \<forall>v\<in>set (violations r). severity v \<noteq> MUST)
              \<and> (\<forall>name. output_file argv = Some name \<longrightarrow> name \<noteq> [] \<longrightarrow> can_write name)))"
proof (cases "run_all_tests (project_at (root_arg argv))")
  case (Inl e)
  then have "main project_at can_write argv = Inl e"
    by (simp add: main_def)
  then have "exit_status (main project_at can_write argv) = 1"
    by (simp add: exit_status_def)
  with Inl show ?thesis
    by simp
next
  case (Inr rs)
  have "rs \<noteq> []"
    using run_all_tests_length [OF Inr] by auto
  then obtain report where report: "generate_report rs = Inr report"
    using generate_report_returns by blast
  let ?writable = "\<forall>name. output_file argv = Some name \<longrightarrow> name \<noteq> [] \<longrightarrow> can_write name"
  have status: "exit_status (main project_at can_write argv)
                  = (if must_violations rs = 0 \<and> ?writable then 0 else 1)"
  proof (cases ?writable)
    case True
    from main_returns [of project_at argv rs can_write, OF Inr True]
    obtain out where "main project_at can_write argv = Inr out"
      "exit_code out = (if must_violations rs > 0 then 1 else 0)"
      by blast
    with True show ?thesis
      by (simp add: exit_status_def)
  next
    case False
    then obtain name where name: "output_file argv = Some name" "name \<noteq> []" "\<not> can_write name"
      by blast
    then have "main project_at can_write argv = Inl (WriteError name)"
      by (simp add: main_def Inr report)
    with False show ?thesis
      by (simp add: exit_status_def)
  qed
  have must: "must_violations rs = 0
                \<longleftrightarrow> (\<forall>r\<in>snd ` set rs. \<forall>v\<in>set (violations r). severity v \<noteq> MUST)"
    by (rule must_violations_zero_iff)
  show ?thesis
  proof (cases "must_violations rs = 0 \<and> ?writable")
    case True
    with status have "exit_status (main project_at can_write argv) = 0"
      by simp
    moreover from True must
    have "\<exists>rs'. run_all_tests (project_at (root_arg argv)) = Inr rs'
              \<and> must_violations rs' = 0
              \<and> (\<forall>r\<in>snd ` set rs'. \<forall>v\<in>set (violations r). severity v \<noteq> MUST)
              \<and> ?writable"
      using Inr by blast
    ultimately show ?thesis
      by simp
  next
    case False
    with status have one: "exit_status (main project_at can_write argv) = 1"
      by simp
    from False Inr
    have "\<not> (\<exists>rs'. run_all_tests (project_at (root_arg argv)) = Inr rs'
              \<and> must_violations rs' = 0
              \<and> (\<forall>r\<in>snd ` set rs'. \<forall>v\<in>set (violations r). severity v \<noteq> MUST)
              \<and> ?writable)"
      by auto
    with one show ?thesis
      by simp
  qed
qed

text \<open>
  The compliant project has two SHOULD violations and no MUST violation: the status is
  0 when the report is printed, and 1 when the output file cannot be written. The empty
  project has nine MUST violations: the status is 1.
\<close>

theorem C1_exit_status_witness:
  "exit_status (main (\<lambda>root. compliant_fs) (\<lambda>name. True) [''rule_test_runner.py'']) = 0
   \<and> must_violations (projr (run_all_tests compliant_fs)) = 0
   \<and> total_violations (projr (run_all_tests compliant_fs)) = 2
   \<and> exit_status (main (\<lambda>root. compliant_fs) (\<lambda>name. False)
                     [''rule_test_runner.py'', ''.'', ''no_such_dir/report.md'']) = 1
   \<and> exit_status (main (\<lambda>root. empty_fs) (\<lambda>name. True) [''rule_test_runner.py'']) = 1
   \<and> must_violations (projr (run_all_tests empty_fs)) = 9"
proof -
  let ?prog = "[''rule_test_runner.py'']"
  let ?file = "[''rule_test_runner.py'', ''.'', ''no_such_dir/report.md'']"
  have root: "root_arg ?prog = ''.''" "root_arg ?file = ''.''"
    by (simp_all add: root_arg_def)
  have out: "output_file ?prog = None" "output_file ?file = Some ''no_such_dir/report.md''"
    by (simp_all add: output_file_def)
  have a: "exit_status (main (\<lambda>root. compliant_fs) (\<lambda>name. True) ?prog) = 0"
  proof -
    have "\<exists>rs. run_all_tests compliant_fs = Inr rs \<and> must_violations rs = 0
            \<and> (\<forall>r\<in>snd ` set rs. \<forall>v\<in>set (violations r). severity v \<noteq> MUST)
            \<and> (\<forall>name. output_file ?prog = Some name \<longrightarrow> name \<noteq> [] \<longrightarrow> True)"
      using run_compliant must_violations_compliant
        must_violations_zero_iff [of "projr (run_all_tests compliant_fs)"]
      by (intro exI [of _ "projr (run_all_tests compliant_fs)"]) (simp add: out)
    then show ?thesis
      using C1_exit_status [of "\<lambda>root. compliant_fs" "\<lambda>name. True" ?prog] by blast
  qed
  have b: "exit_status (main (\<lambda>root. compliant_fs) (\<lambda>name. False) ?file) = 1"
  proof -
    have "\<not> (\<forall>name. output_file ?file = Some name \<longrightarrow> name \<noteq> [] \<longrightarrow> False)"
      by (simp add: out)
    then show ?thesis
      using C1_exit_status [of "\<lambda>root. compliant_fs" "\<lambda>name. False" ?file] by blast
  qed
  have c: "exit_status (main (\<lambda>root. empty_fs) (\<lambda>name. True) ?prog) = 1"
  proof -
    have "\<And>rs. run_all_tests empty_fs = Inr rs \<Longrightarrow> must_violations rs \<noteq> 0"
      using run_empty must_violations_empty by auto
    then show ?thesis
      using C1_exit_status [of "\<lambda>root. empty_fs" "\<lambda>name. True" ?prog] by blast
  qed
  from a b c must_violations_compliant total_violations_compliant must_violations_empty
  show ?thesis
    by (intro conjI)
qed

subsection \<open>The empty project\<close>

text \<open>
  A project is empty when no path but the root exists and every recursive search from
  the root yields nothing. All such projects give the results of \<open>empty_fs\<close>.
\<close>

lemma run_all_tests_empty_project:
  assumes no_entry: "\<forall>p. p \<noteq> project_root \<longrightarrow> \<not> exists fs p"
    and no_match: "\<forall>pattern. rglob fs project_root pattern = []"
  shows "run_all_tests fs = run_all_tests empty_fs"
proof -
  have ex: "\<And>p. p \<noteq> [] \<Longrightarrow> exists fs p = False"
    using no_entry by (simp add: project_root_def)
  have rg: "\<And>pattern. rglob fs [] pattern = []"
    using no_match by (simp add: project_root_def)
  have "test_01a_design_principles fs = test_01a_design_principles empty_fs"
    by (simp add: test_01a_design_principles_def empty_fs_def ex rg eval_defs)
  moreover have "test_01b_runtime_operations fs = test_01b_runtime_operations empty_fs"
    by (simp add: test_01b_runtime_operations_def empty_fs_def ex rg eval_defs)
  moreover have "test_02a_container_design fs = test_02a_container_design empty_fs"
    by (simp add: test_02a_container_design_def empty_fs_def ex rg eval_defs)
  moreover have "test_03a_authentication fs = test_03a_authentication empty_fs"
    by (simp add: test_03a_authentication_def empty_fs_def ex rg eval_defs)
  moreover have "test_05b_secrets_management fs = test_05b_secrets_management empty_fs"
    by (simp add: test_05b_secrets_management_def code_files_def empty_fs_def ex rg eval_defs)
  moreover have "test_06a_api_design fs = test_06a_api_design empty_fs"
    by (simp add: test_06a_api_design_def empty_fs_def ex rg eval_defs)
  moreover have "test_07a_testing_strategy fs = test_07a_testing_strategy empty_fs"
    by (simp add: test_07a_testing_strategy_def empty_fs_def ex rg eval_defs)
  moreover have "test_08b_logging_standards fs = test_08b_logging_standards empty_fs"
    by (simp add: test_08b_logging_standards_def empty_fs_def ex rg eval_defs)
  moreover have "test_09a_cicd_pipelines fs = test_09a_cicd_pipelines empty_fs"
    by (simp add: test_09a_cicd_pipelines_def empty_fs_def ex rg eval_defs)
  ultimately show ?thesis
    by (simp only: run_all_tests_def)
qed

lemma empty_project_must_counts:
  "map (\<lambda>k. map_option (\<lambda>r. must_count (violations r))
                (map_of (projr (run_all_tests empty_fs)) k))
     [''01A'', ''01B'', ''02A'', ''06A'', ''07A'', ''09A'']
   = [Some 3, Some 1, Some 1, Some 1, Some 2, Some 1]"
  by code_simp

text \<open>
  C5. For an empty project directory, the run returns; each of the rules 01A, 01B, 02A,
  06A, 07A and 09A reports at least one MUST violation; and \<^verbatim>\<open>main\<close> exits with 1.
\<close>

theorem C5_empty_project:
  assumes no_entry: "\<forall>p. p \<noteq> project_root \<longrightarrow> \<not> exists fs p"
    and no_match: "\<forall>pattern. rglob fs project_root pattern = []"
    and root: "project_at (root_arg argv) = fs"
    and writable: "\<forall>name. output_file argv = Some name \<longrightarrow> name \<noteq> [] \<longrightarrow> can_write name"
  shows "\<exists>rs out. run_all_tests fs = Inr rs
           \<and> (\<forall>k\<in>set [''01A'', ''01B'', ''02A'', ''06A'', ''07A'', ''09A''].
                 \<exists>r. map_of rs k = Some r \<and> 1 \<le> must_count (violations r))
           \<and> main project_at can_write argv = Inr out \<and> exit_code out = 1"
proof -
  let ?rs = "projr (run_all_tests empty_fs)"
  have run: "run_all_tests fs = Inr ?rs"
    using run_all_tests_empty_project [OF no_entry no_match] run_empty by simp
  from main_returns [of project_at argv ?rs can_write] run root writable
  obtain out where out: "main project_at can_write argv = Inr out"
    "exit_code out = (if must_violations ?rs > 0 then 1 else 0)"
    by auto
  have "exit_code out = 1"
    by (simp add: out(2) must_violations_empty)
  moreover have "\<forall>k\<in>set [''01A'', ''01B'', ''02A'', ''06A'', ''07A'', ''09A''].
                 \<exists>r. map_of ?rs k = Some r \<and> 1 \<le> must_count (violations r)"
    using empty_project_must_counts by auto
  ultimately show ?thesis
    using run out(1) by blast
qed

text \<open>
  \<open>empty_fs\<close> is such a project: the six rules report 3, 1, 1, 1, 2 and 1 MUST
  violations.
\<close>

theorem C5_empty_project_witness:
  "run_all_tests empty_fs = Inr (projr (run_all_tests empty_fs))
   \<and> map (\<lambda>k. map_option (\<lambda>r. must_count (violations r)) (map_of (projr (run_all_tests empty_fs)) k))
        [''01A'', ''01B'', ''02A'', ''06A'', ''07A'', ''09A'']
      = [Some 3, Some 1, Some 1, Some 1, Some 2, Some 1]
   \<and> map_sum id exit_code (main (\<lambda>root. empty_fs) (\<lambda>name. True) [''rule_test_runner.py''])
      = Inr 1"
proof -
  have no_entry: "\<forall>p. p \<noteq> project_root \<longrightarrow> \<not> exists empty_fs p"
    by (simp add: empty_fs_def project_root_def)
  have no_match: "\<forall>pattern. rglob empty_fs project_root pattern = []"
    by (simp add: empty_fs_def)
  have writable: "\<forall>name. output_file [''rule_test_runner.py''] = Some name \<longrightarrow> name \<noteq> []
             \<longrightarrow> (\<lambda>name. True) name"
    by simp
  note counts = empty_project_must_counts
  from C5_empty_project [of empty_fs "\<lambda>root. empty_fs" "[''rule_test_runner.py'']" "\<lambda>name. True",
      OF no_entry no_match refl writable]
  have "map_sum id exit_code (main (\<lambda>root. empty_fs) (\<lambda>name. True) [''rule_test_runner.py''])
      = Inr 1"
    by auto
  with run_empty counts show ?thesis by simp
qed

subsection \<open>Rule 02A on a Dockerfile without the directives\<close>

text \<open>
  The loop of 02A inspects the first candidate that exists and no other: its result is
  stated from that candidate alone.
\<close>

lemma inspect_dockerfile_first:
  assumes "find (exists fs) paths = Some c" and "read_text fs c = Some content"
  shows "inspect_dockerfile fs paths =
           Inr ((if \<not> contains (ustr ''USER '') content then
                   [\<lparr>rule_id = ''02A-002'', severity = MUST,
                     description = ''Dockerfile missing non-root USER directive'',
                     file_path = Some (path_str fs c), line_number = None,
                     suggestion = Some ''Add USER directive to run as non-root''\<rparr>]
                 else [])
                @ (if \<not> contains (ustr ''HEALTHCHECK'') content then
                     [\<lparr>rule_id = ''02A-003'', severity = SHOULD,
                       description = ''Dockerfile missing HEALTHCHECK directive'',
                       file_path = Some (path_str fs c), line_number = None,
                       suggestion = Some ''Add HEALTHCHECK for container health monitoring''\<rparr>]
                   else []))"
  using assms by (induction paths) (auto split: if_splits)

lemma find_Some_list_ex: "find P xs = Some x \<Longrightarrow> list_ex P xs"
  by (induction xs) (auto split: if_splits)

text \<open>
  C6 as stated fails. The check takes a Dockerfile to have the directives when its
  content holds the substrings \<^verbatim>\<open>"USER "\<close> and \<^verbatim>\<open>"HEALTHCHECK"\<close>. The Dockerfile of
  \<open>env_user_fs\<close> has no \<^verbatim>\<open>USER\<close> and no \<^verbatim>\<open>HEALTHCHECK\<close> directive, yet holds both
  substrings, in the name of an environment variable and in a comment: 02A reports no
  violation and passes.
\<close>

theorem C6_directive_as_substring_counterexample:
  "find (exists env_user_fs) dockerfile_paths = Some [''Dockerfile'']
   \<and> read_text env_user_fs [''Dockerfile''] = Some env_user_dockerfile
   \<and> \<not> spec_has_directive ''USER'' env_user_dockerfile
   \<and> \<not> spec_has_directive ''HEALTHCHECK'' env_user_dockerfile
   \<and> test_02a_container_design env_user_fs
       = Inr [(''02A'',
               \<lparr>result_rule_id = ''02A'', passed = True, violations = [],
                details = ''Container design compliance: 0 violations found''\<rparr>)]"
proof -
  have a: "find (exists env_user_fs) dockerfile_paths = Some [''Dockerfile'']"
    by (simp add: env_user_fs_def eval_defs)
  have b: "read_text env_user_fs [''Dockerfile''] = Some env_user_dockerfile"
    by (simp add: env_user_fs_def)
  have c: "\<not> spec_has_directive ''USER'' env_user_dockerfile"
    by code_simp
  have d: "\<not> spec_has_directive ''HEALTHCHECK'' env_user_dockerfile"
    by code_simp
  have e: "test_02a_container_design env_user_fs
       = Inr [(''02A'',
               \<lparr>result_rule_id = ''02A'', passed = True, violations = [],
                details = ''Container design compliance: 0 violations found''\<rparr>)]"
    by code_simp
  from a b c d e show ?thesis
    by (intro conjI)
qed

text \<open>
  C6, amended. Let \<open>c\<close> be the first of the candidates \<^verbatim>\<open>Dockerfile\<close>,
  \<^verbatim>\<open>docker/Dockerfile\<close>, \<^verbatim>\<open>build/Dockerfile\<close> that exists, let its read succeed, and
  let its content hold neither the substring \<^verbatim>\<open>"USER "\<close> nor the substring
  \<^verbatim>\<open>"HEALTHCHECK"\<close>. Then the result of 02A holds exactly the MUST violation
  \<^verbatim>\<open>02A-002\<close> and the SHOULD violation \<^verbatim>\<open>02A-003\<close>, both naming \<open>c\<close>, and
  \<open>passed = False\<close>. Nothing is assumed of the candidates after \<open>c\<close>: whether they
  exist and what they hold does not matter.
\<close>

theorem C6_dockerfile_without_directives:
  assumes first: "find (exists fs) dockerfile_paths = Some c"
    and read: "read_text fs c = Some content"
    and no_user: "\<not> contains (ustr ''USER '') content"
    and no_healthcheck: "\<not> contains (ustr ''HEALTHCHECK'') content"
  shows "test_02a_container_design fs =
           Inr [(''02A'',
                 \<lparr>result_rule_id = ''02A'', passed = False,
                  violations =
                    [\<lparr>rule_id = ''02A-002'', severity = MUST,
                      description = ''Dockerfile missing non-root USER directive'',
                      file_path = Some (path_str fs c), line_number = None,
                      suggestion = Some ''Add USER directive to run as non-root''\<rparr>,
                     \<lparr>rule_id = ''02A-003'', severity = SHOULD,
                      description = ''Dockerfile missing HEALTHCHECK directive'',
                      file_path = Some (path_str fs c), line_number = None,
                      suggestion = Some ''Add HEALTHCHECK for container health monitoring''\<rparr>],
                  details = ''Container design compliance: 2 violations found''\<rparr>)]"
proof -
  have ex: "list_ex (exists fs) dockerfile_paths"
    using first by (rule find_Some_list_ex)
  have "str_nat 2 = ''2''"
    by (simp add: str_nat.simps digit_char_def)
  then have two: "str_nat (Suc (Suc 0)) = ''2''"
    by (simp add: numeral_2_eq_2)
  show ?thesis
    using ex no_user no_healthcheck
    by (simp add: test_02a_container_design_def Let_def
        inspect_dockerfile_first [OF first read] must_count_def two)
qed

text \<open>
  With \<^verbatim>\<open>Dockerfile\<close> lacking both directives and \<^verbatim>\<open>docker/Dockerfile\<close> holding both,
  the two violations are reported, for \<^verbatim>\<open>Dockerfile\<close>.
\<close>

theorem C6_dockerfile_without_directives_witness:
  "find (exists two_dockerfiles_fs) dockerfile_paths = Some [''Dockerfile'']
   \<and> exists two_dockerfiles_fs [''docker'', ''Dockerfile'']
   \<and> map_sum id (map (\<lambda>(k, r). (k, passed r, map (\<lambda>v. (rule_id v, severity v, file_path v))
                                                  (violations r))))
        (test_02a_container_design two_dockerfiles_fs)
      = Inr [(''02A'', False, [(''02A-002'', MUST, Some ''Dockerfile''),
                               (''02A-003'', SHOULD, Some ''Dockerfile'')])]"
proof -
  have first: "find (exists two_dockerfiles_fs) dockerfile_paths = Some [''Dockerfile'']"
    by (simp add: two_dockerfiles_fs_def eval_defs)
  have read: "read_text two_dockerfiles_fs [''Dockerfile''] = Some (ustr ''FROM python:3.12'')"
    by (simp add: two_dockerfiles_fs_def)
  have no_user: "\<not> contains (ustr ''USER '') (ustr ''FROM python:3.12'')"
    by (simp add: ustr_def)
  have no_healthcheck: "\<not> contains (ustr ''HEALTHCHECK'') (ustr ''FROM python:3.12'')"
    by (simp add: ustr_def)
  have later: "exists two_dockerfiles_fs [''docker'', ''Dockerfile'']"
    by (simp add: two_dockerfiles_fs_def)
  have name: "path_str two_dockerfiles_fs [''Dockerfile''] = ''Dockerfile''"
    by (simp add: two_dockerfiles_fs_def path_name_def)
  show ?thesis
    using C6_dockerfile_without_directives [OF first read no_user no_healthcheck] first later
    by (simp add: name)
qed

subsection \<open>Rule 05B: hardcoded secrets\<close>

text \<open>
  Every pattern found in a line adds a violation; every line of a file and every file
  whose read succeeds is scanned.
\<close>

lemma scan_line_reports:
  "pattern \<in> set patterns \<Longrightarrow> re_search True pattern line
     \<Longrightarrow> secret_violation fs f i \<in> set (scan_line fs f i line patterns)"
  by (induction patterns) auto

lemma scan_lines_reports:
  "k < length lines \<Longrightarrow> v \<in> set (scan_line fs f (i + k) (lines ! k) secret_patterns)
     \<Longrightarrow> v \<in> set (scan_lines fs f i lines)"
proof (induction lines arbitrary: i k)
  case Nil
  then show ?case by simp
next
  case (Cons line rest)
  show ?case
  proof (cases k)
    case 0
    with Cons.prems show ?thesis by simp
  next
    case (Suc j)
    with Cons.prems have "j < length rest"
      and "v \<in> set (scan_line fs f (Suc i + j) (rest ! j) secret_patterns)"
      by simp_all
    then have "v \<in> set (scan_lines fs f (Suc i) rest)"
      by (rule Cons.IH)
    then show ?thesis by simp
  qed
qed

lemma scan_code_files_reports:
  "f \<in> set files \<Longrightarrow> read_text fs f = Some content
     \<Longrightarrow> v \<in> set (scan_lines fs f 1 (split 0x0A content))
     \<Longrightarrow> v \<in> set (scan_code_files fs files)"
  by (induction files) auto

lemma password_pattern_listed:
  "literal ''password'' @ assignment_tail \<in> set secret_patterns"
  by (simp add: secret_patterns_def)

lemma code_files_member:
  "pattern \<in> set [''*.py'', ''*.js'', ''*.ts'', ''*.go'', ''*.java'']
     \<Longrightarrow> f \<in> set (rglob fs project_root pattern) \<Longrightarrow> f \<in> set (code_files fs)"
  by (auto simp add: code_files_def)

text \<open>
  C7. Let \<open>f\<close> be a file yielded by the recursive search for one of \<^verbatim>\<open>*.py\<close>,
  \<^verbatim>\<open>*.js\<close>, \<^verbatim>\<open>*.ts\<close>, \<^verbatim>\<open>*.go\<close>, \<^verbatim>\<open>*.java\<close>, let its read succeed, and let
  its line at index \<open>i\<close> (from 0) match the password pattern
  \<^verbatim>\<open>password\s*=\s*["'][^"']+["']\<close>, case ignored, as the \<^verbatim>\<open>re\<close> module matches it
  on Unicode text. Then the result of 05B holds a MUST
  violation \<^verbatim>\<open>05B-001\<close> for \<open>f\<close> whose \<open>line_number\<close> is \<open>i + 1\<close>, and 05B does
  not pass. This holds for every such file and line, whatever the other files and lines
  hold.
\<close>

theorem C7_password_line_reported:
  assumes ext: "pattern \<in> set [''*.py'', ''*.js'', ''*.ts'', ''*.go'', ''*.java'']"
    and listed: "f \<in> set (rglob fs project_root pattern)"
    and read: "read_text fs f = Some content"
    and line: "i < length (split 0x0A content)"
    and matches: "re_search True (literal ''password'' @ assignment_tail)
                    (split 0x0A content ! i)"
  shows "\<exists>r. test_05b_secrets_management fs = [(''05B'', r)] \<and> \<not> passed r
           \<and> (\<exists>v\<in>set (violations r). rule_id v = ''05B-001'' \<and> severity v = MUST
                 \<and> file_path v = Some (path_str fs f) \<and> line_number v = Some (i + 1))"
proof -
  let ?v = "secret_violation fs f (1 + i)"
  have "?v \<in> set (scan_line fs f (1 + i) (split 0x0A content ! i) secret_patterns)"
    using password_pattern_listed matches by (rule scan_line_reports)
  with line have "?v \<in> set (scan_lines fs f 1 (split 0x0A content))"
    by (rule scan_lines_reports)
  with code_files_member [OF ext listed] read
  have mem: "?v \<in> set (scan_code_files fs (code_files fs))"
    by (rule scan_code_files_reports)
  then have "scan_code_files fs (code_files fs) \<noteq> []"
    by auto
  with mem show ?thesis
    by (auto simp add: test_05b_secrets_management_def Let_def secret_violation_def
        intro!: bexI [of _ ?v])
qed

text \<open>
  In the project with \<^verbatim>\<open>a.py\<close> and \<^verbatim>\<open>b.py\<close>, the second file yielded has the
  assignment in its second line, and 05B reports \<^verbatim>\<open>b.py\<close>, line 2. In the project
  whose \<^verbatim>\<open>app.py\<close> writes the name with a long s and puts a no-break space and an em
  space around the equals sign, the line matches too, and 05B reports \<^verbatim>\<open>app.py\<close>,
  line 1.
\<close>

theorem C7_password_line_reported_witness:
  "[''b.py''] \<in> set (rglob (two_secrets_fs [[''a.py''], [''b.py'']]) project_root ''*.py'')
   \<and> split 0x0A (ustr (''import os'' @ NL @ secret_line @ NL)) ! 1 = ustr secret_line
   \<and> re_search True (literal ''password'' @ assignment_tail) (ustr secret_line)
   \<and> (\<exists>r. test_05b_secrets_management (two_secrets_fs [[''a.py''], [''b.py'']]) = [(''05B'', r)]
         \<and> \<not> passed r
         \<and> (\<exists>v\<in>set (violations r). severity v = MUST \<and> file_path v = Some ''b.py''
               \<and> line_number v = Some 2))
   \<and> re_search True (literal ''password'' @ assignment_tail) unicode_secret_line
   \<and> (\<exists>r. test_05b_secrets_management unicode_secret_fs = [(''05B'', r)]
         \<and> \<not> passed r
         \<and> (\<exists>v\<in>set (violations r). severity v = MUST \<and> file_path v = Some ''app.py''
               \<and> line_number v = Some 1))"
proof -
  let ?fs = "two_secrets_fs [[''a.py''], [''b.py'']]"
  let ?content = "ustr (''import os'' @ NL @ secret_line @ NL)"
  have ext: "''*.py'' \<in> set [''*.py'', ''*.js'', ''*.ts'', ''*.go'', ''*.java'']"
    by simp
  have listed: "[''b.py''] \<in> set (rglob ?fs project_root ''*.py'')"
    by (simp add: two_secrets_fs_def project_root_def)
  have read: "read_text ?fs [''b.py''] = Some ?content"
    by (simp add: two_secrets_fs_def)
  have nth: "split 0x0A ?content ! 1 = ustr secret_line"
    by code_simp
  have line: "1 < length (split 0x0A ?content)"
    by code_simp
  have m: "re_search True (literal ''password'' @ assignment_tail) (ustr secret_line)"
    by code_simp
  have matches: "re_search True (literal ''password'' @ assignment_tail)
                   (split 0x0A ?content ! 1)"
    by (simp only: nth m)
  have name: "path_str ?fs [''b.py''] = ''b.py''"
    by (simp add: two_secrets_fs_def path_name_def)
  from C7_password_line_reported [OF ext listed read line matches]
  obtain r v where r: "test_05b_secrets_management ?fs = [(''05B'', r)]" "\<not> passed r"
    and v: "v \<in> set (violations r)" "severity v = MUST"
      "file_path v = Some (path_str ?fs [''b.py''])" "line_number v = Some (1 + 1)"
    by blast
  from v have "\<exists>v\<in>set (violations r). severity v = MUST \<and> file_path v = Some ''b.py''
                 \<and> line_number v = Some 2"
    unfolding name by (intro bexI [of _ v]) simp_all
  with r have ascii: "\<exists>r. test_05b_secrets_management ?fs = [(''05B'', r)] \<and> \<not> passed r
         \<and> (\<exists>v\<in>set (violations r). severity v = MUST \<and> file_path v = Some ''b.py''
               \<and> line_number v = Some 2)"
    by blast
  have listed': "[''app.py''] \<in> set (rglob unicode_secret_fs project_root ''*.py'')"
    by (simp add: unicode_secret_fs_def project_root_def)
  have read': "read_text unicode_secret_fs [''app.py''] = Some unicode_secret_line"
    by (simp add: unicode_secret_fs_def)
  have nth': "split 0x0A unicode_secret_line ! 0 = unicode_secret_line"
    by code_simp
  have line': "0 < length (split 0x0A unicode_secret_line)"
    by code_simp
  have m': "re_search True (literal ''password'' @ assignment_tail) unicode_secret_line"
    by code_simp
  have matches': "re_search True (literal ''password'' @ assignment_tail)
                    (split 0x0A unicode_secret_line ! 0)"
    by (simp only: nth' m')
  have name': "path_str unicode_secret_fs [''app.py''] = ''app.py''"
    by (simp add: unicode_secret_fs_def path_name_def)
  from C7_password_line_reported [OF ext listed' read' line' matches']
  obtain r' v' where r': "test_05b_secrets_management unicode_secret_fs = [(''05B'', r')]"
      "\<not> passed r'"
    and v': "v' \<in> set (violations r')" "severity v' = MUST"
      "file_path v' = Some (path_str unicode_secret_fs [''app.py''])"
      "line_number v' = Some (0 + 1)"
    by blast
  from v' have "\<exists>v\<in>set (violations r'). severity v = MUST \<and> file_path v = Some ''app.py''
                 \<and> line_number v = Some 1"
    unfolding name' by (intro bexI [of _ v']) simp_all
  with r' have unicode: "\<exists>r. test_05b_secrets_management unicode_secret_fs = [(''05B'', r)]
         \<and> \<not> passed r
         \<and> (\<exists>v\<in>set (violations r). severity v = MUST \<and> file_path v = Some ''app.py''
               \<and> line_number v = Some 1)"
    by blast
  from listed nth m ascii m' unicode show ?thesis
    by (intro conjI)
qed

subsection \<open>The compliance score\<close>

text \<open>
  \<open>round_half_even n d\<close> is an integer nearest to \<open>n / d\<close>.
\<close>

lemma round_half_even_nearest:
  assumes "0 < d"
  shows "2 * d * round_half_even n d \<le> 2 * n + d \<and> 2 * n \<le> 2 * d * round_half_even n d + d"
proof -
  define q where "q = n div d"
  define r where "r = n mod d"
  have n: "n = d * q + r"
    by (simp add: q_def r_def)
  have r: "r < d"
    using assms by (simp add: r_def)
  have rhe: "round_half_even n d =
               (if 2 * r < d then q else if d < 2 * r then q + 1 else if even q then q else q + 1)"
    by (simp add: round_half_even_def q_def r_def Let_def)
  consider (down) "round_half_even n d = q" "2 * r \<le> d"
    | (up) "round_half_even n d = q + 1" "d \<le> 2 * r"
    unfolding rhe by (cases "2 * r < d"; cases "d < 2 * r"; cases "even q") auto
  then show ?thesis
  proof cases
    case down
    then show ?thesis by (simp add: n algebra_simps)
  next
    case up
    with r show ?thesis by (simp add: n algebra_simps)
  qed
qed

text \<open>The summary of every report holds the line of the score.\<close>

lemma startswith_append: "startswith (p @ s) p"
  by (induction p) simp_all

lemma contains_here: "contains needle (needle @ rest)"
proof (cases "needle @ rest")
  case Nil
  then show ?thesis by simp
next
  case (Cons c cs)
  have "startswith (needle @ rest) needle"
    by (rule startswith_append)
  then have "startswith (c # cs) needle"
    by (simp only: Cons)
  then show ?thesis
    by (simp only: Cons contains.simps) simp
qed

lemma contains_skip: "contains needle ys \<Longrightarrow> contains needle (xs @ ys)"
  by (induction xs) simp_all

lemma contains_here3: "contains (a @ b @ c) (a @ b @ c @ rest)"
  using contains_here [of "a @ b @ c" rest] by simp

lemma generate_report_score_line:
  assumes "rs \<noteq> []"
  shows "generate_report rs = Inr (projr (generate_report rs))
           \<and> contains (''- **Compliance Score**: '' @ format_1f (compliance_score rs) @ ''%'')
                (projr (generate_report rs))"
proof
  have len: "length rs \<noteq> 0"
    using assms by simp
  show "generate_report rs = Inr (projr (generate_report rs))"
    using assms by (simp add: generate_report_def Let_def)
  show "contains (''- **Compliance Score**: '' @ format_1f (compliance_score rs) @ ''%'')
                (projr (generate_report rs))"
    unfolding generate_report_def Let_def if_not_P [OF len] sum.sel
    by (rule contains_here3 | rule contains_skip)+
qed

text \<open>
  With 23 rules the quotient is never half-way between two tenths, so the rounding of
  the exact quotient does not depend on how a tie is broken.
\<close>

lemma score_not_tie: "\<bar>46 * int a - 2000 * int b\<bar> \<noteq> 23"
proof
  assume eq: "\<bar>46 * int a - 2000 * int b\<bar> = 23"
  have "even (46 * int a - 2000 * int b)"
    by simp
  then have "even \<bar>46 * int a - 2000 * int b\<bar>"
    by simp
  then have "even (23 :: int)"
    by (simp only: eq)
  then show False
    by simp
qed

text \<open>
  C8 as stated, with the divisor 22, fails: in the empty project 17 of the 23 rules
  pass; the report shows 73.9, the score over 23, where the score over 22 is 77.3.
\<close>

theorem C8_score_over_22_counterexample:
  "run_all_tests empty_fs = Inr (projr (run_all_tests empty_fs))
   \<and> length (projr (run_all_tests empty_fs)) = 23
   \<and> passed_rules (projr (run_all_tests empty_fs)) = 17
   \<and> compliance_score (projr (run_all_tests empty_fs)) = 739
   \<and> spec_compliance_score (projr (run_all_tests empty_fs)) = 773
   \<and> contains ''- **Compliance Score**: 73.9%''
        (projr (generate_report (projr (run_all_tests empty_fs))))"
proof -
  let ?rs = "projr (run_all_tests empty_fs)"
  have a: "length ?rs = 23"
    using run_empty by (rule run_all_tests_length)
  have b: "passed_rules ?rs = 17"
    by code_simp
  have c: "compliance_score ?rs = 739"
    by (simp add: compliance_score_def a b score_tenths_def round_half_even_def)
  have d: "spec_compliance_score ?rs = 773"
    by (simp add: spec_compliance_score_def b round_half_even_def)
  have f: "format_1f 739 = ''73.9''"
    by (simp add: format_1f_def str_nat.simps digit_char_def)
  have "?rs \<noteq> []"
    using a by auto
  then have "contains (''- **Compliance Score**: '' @ format_1f (compliance_score ?rs) @ ''%'')
               (projr (generate_report ?rs))"
    using generate_report_score_line by blast
  then have e: "contains ''- **Compliance Score**: 73.9%'' (projr (generate_report ?rs))"
    by (simp add: c f)
  from run_empty a b c d e show ?thesis
    by (intro conjI)
qed

text \<open>
  C8, amended. For every run that returns, the compliance score in the summary is the
  number of rules with \<open>passed = True\<close> divided by 23, times 100, rounded to one
  decimal: in tenths of a percent it is \<open>round_half_even (1000 * passed) 23\<close>, an
  integer \<open>t\<close> with \<open>\<bar>t / 10 - 100 * passed / 23\<bar> < 1 / 20\<close>, and the report holds
  the line that prints it.
\<close>

theorem C8_score_over_23:
  assumes run: "run_all_tests fs = Inr rs"
  shows "compliance_score rs = round_half_even (passed_rules rs * 1000) 23
         \<and> \<bar>46 * int (compliance_score rs) - 2000 * int (passed_rules rs)\<bar> < 23
         \<and> (\<exists>report. generate_report rs = Inr report
               \<and> contains (''- **Compliance Score**: '' @ format_1f (compliance_score rs) @ ''%'')
                    report)"
proof -
  have len: "length rs = 23"
    using run by (rule run_all_tests_length)
  have score: "compliance_score rs = round_half_even (passed_rules rs * 1000) 23"
    by (simp add: compliance_score_def score_tenths_def len)
  have near: "2 * 23 * round_half_even (passed_rules rs * 1000) 23 \<le> 2 * (passed_rules rs * 1000) + 23
              \<and> 2 * (passed_rules rs * 1000)
                  \<le> 2 * 23 * round_half_even (passed_rules rs * 1000) 23 + 23"
    by (rule round_half_even_nearest) simp
  have "\<bar>46 * int (compliance_score rs) - 2000 * int (passed_rules rs)\<bar> \<le> 23"
    using near unfolding score by linarith
  moreover have "\<bar>46 * int (compliance_score rs) - 2000 * int (passed_rules rs)\<bar> \<noteq> 23"
    by (rule score_not_tie)
  ultimately have close: "\<bar>46 * int (compliance_score rs) - 2000 * int (passed_rules rs)\<bar> < 23"
    by linarith
  have "rs \<noteq> []"
    using len by auto
  then have "generate_report rs = Inr (projr (generate_report rs))
           \<and> contains (''- **Compliance Score**: '' @ format_1f (compliance_score rs) @ ''%'')
                (projr (generate_report rs))"
    by (rule generate_report_score_line)
  then have "\<exists>report. generate_report rs = Inr report
               \<and> contains (''- **Compliance Score**: '' @ format_1f (compliance_score rs) @ ''%'')
                    report"
    by blast
  with score close show ?thesis
    by (intro conjI)
qed

text \<open>The empty project: 17 rules pass, and the score is 73.9.\<close>

theorem C8_score_over_23_witness:
  "run_all_tests empty_fs = Inr (projr (run_all_tests empty_fs))
   \<and> passed_rules (projr (run_all_tests empty_fs)) = 17
   \<and> compliance_score (projr (run_all_tests empty_fs)) = 739
   \<and> round_half_even (17 * 1000) 23 = 739"
proof -
  have b: "passed_rules (projr (run_all_tests empty_fs)) = 17"
    by code_simp
  have c: "round_half_even (17 * 1000) 23 = 739"
    by (simp add: round_half_even_def)
  from C8_score_over_23 [OF run_empty]
  have "compliance_score (projr (run_all_tests empty_fs))
          = round_half_even (passed_rules (projr (run_all_tests empty_fs)) * 1000) 23"
    by (rule conjunct1)
  then have d: "compliance_score (projr (run_all_tests empty_fs)) = 739"
    by (simp only: b c)
  from run_empty b d c show ?thesis
    by (intro conjI)
qed

end
